theory Spec2Isabelle
  imports Main "HOL-Library.Char_ord" "HOL-Library.List_Lexorder" "HOL-Library.Multiset"
begin

section \<open>JavaScript values and built-ins used by the application\<close>

text \<open>
  Strings are lists of 8-bit characters; code units above 0xFF are outside the model.
  A JavaScript number is either NaN or an integer: every number the application handles
  comes from \<^verbatim>\<open>parseInt\<close> or from an integer column. Comparisons of such a number
  with the small constants 0, 100 and 250 agree with the comparisons of the doubles.
\<close>

datatype jsnum = NaN | Num int

fun isNaN :: "jsnum \<Rightarrow> bool" where
  "isNaN NaN = True"
| "isNaN (Num n) = False"

text \<open>\<^verbatim>\<open>x < c\<close> and \<^verbatim>\<open>x > c\<close>: every comparison with NaN is false.\<close>

fun js_lt :: "jsnum \<Rightarrow> int \<Rightarrow> bool" where
  "js_lt NaN c = False"
| "js_lt (Num n) c = (n < c)"

fun js_gt :: "jsnum \<Rightarrow> int \<Rightarrow> bool" where
  "js_gt NaN c = False"
| "js_gt (Num n) c = (n > c)"

text \<open>
  White space and line terminators of ECMAScript within the 8-bit range:
  TAB, LF, VT, FF, CR, SP and NBSP.
\<close>

definition isWhiteSpace :: "char \<Rightarrow> bool" where
  "isWhiteSpace c = (of_char c \<in> {9, 10, 11, 12, 13, 32, 160 :: nat})"

text \<open>\<^verbatim>\<open>String.prototype.trim\<close>: white space is removed at both ends.\<close>

definition trim :: "string \<Rightarrow> string" where
  "trim s = rev (dropWhile isWhiteSpace (rev (dropWhile isWhiteSpace s)))"

text \<open>The value of a character as a digit (0-9, a-z, A-Z), if it is one.\<close>

definition digitVal :: "char \<Rightarrow> nat option" where
  "digitVal c =
     (let k = (of_char c :: nat) in
      if 48 \<le> k \<and> k \<le> 57 then Some (k - 48)
      else if 97 \<le> k \<and> k \<le> 122 then Some (k - 87)
      else if 65 \<le> k \<and> k \<le> 90 then Some (k - 55)
      else None)"

definition isRadixDigit :: "nat \<Rightarrow> char \<Rightarrow> bool" where
  "isRadixDigit R c = (case digitVal c of None \<Rightarrow> False | Some d \<Rightarrow> d < R)"

text \<open>The mathematical integer written by a digit string in radix R, most significant first.\<close>

definition radixValue :: "nat \<Rightarrow> string \<Rightarrow> nat" where
  "radixValue R Z = foldl (\<lambda>acc c. acc * R + (case digitVal c of None \<Rightarrow> 0 | Some d \<Rightarrow> d)) 0 Z"

text \<open>
  \<^verbatim>\<open>parseInt(string)\<close> with no radix argument, after ECMA-262 (parseInt): leading white
  space is skipped, one sign is read, a prefix 0x or 0X selects radix 16 (radix 10
  otherwise), and the longest prefix of digits of that radix is the number; whatever
  follows is ignored. With no digit the result is NaN.
\<close>

definition parseInt :: "string \<Rightarrow> jsnum" where
  "parseInt inputString =
     (let S = dropWhile isWhiteSpace inputString;
          sign = (case S of c # _ \<Rightarrow> if c = CHR ''-'' then (-1 :: int) else 1 | [] \<Rightarrow> 1);
          S1 = (case S of c # cs \<Rightarrow> if c = CHR ''+'' \<or> c = CHR ''-'' then cs else S | [] \<Rightarrow> S);
          hex = (case S1 of a # b # _ \<Rightarrow> a = CHR ''0'' \<and> (b = CHR ''x'' \<or> b = CHR ''X'') | _ \<Rightarrow> False);
          R = (if hex then 16 else 10);
          S2 = (if hex then drop 2 S1 else S1);
          Z = takeWhile (isRadixDigit R) S2
      in if Z = [] then NaN else Num (sign * int (radixValue R Z)))"

text \<open>
  \<^verbatim>\<open>JSON.stringify\<close> of an array of strings: each string is quoted, with the quotation
  mark, the backslash and the control characters escaped.
\<close>

definition hexDigit :: "nat \<Rightarrow> char" where
  "hexDigit d = (if d < 10 then char_of (48 + d) else char_of (87 + d))"

definition jsonEscape :: "char \<Rightarrow> string" where
  "jsonEscape c =
     (let k = (of_char c :: nat) in
      if k = 34 then [CHR 0x5C, CHR 0x22]
      else if k = 92 then [CHR 0x5C, CHR 0x5C]
      else if k = 8 then [CHR 0x5C, CHR ''b'']
      else if k = 9 then [CHR 0x5C, CHR ''t'']
      else if k = 10 then [CHR 0x5C, CHR ''n'']
      else if k = 12 then [CHR 0x5C, CHR ''f'']
      else if k = 13 then [CHR 0x5C, CHR ''r'']
      else if k < 32 then [CHR 0x5C, CHR ''u'', CHR ''0'', CHR ''0'', hexDigit (k div 16), hexDigit (k mod 16)]
      else [c])"

definition jsonQuote :: "string \<Rightarrow> string" where
  "jsonQuote s = [CHR 0x22] @ concat (map jsonEscape s) @ [CHR 0x22]"

fun joinWith :: "string \<Rightarrow> string list \<Rightarrow> string" where
  "joinWith sep [] = []"
| "joinWith sep [x] = x"
| "joinWith sep (x # y # ys) = x @ sep @ joinWith sep (y # ys)"

definition JSON_stringify :: "string list \<Rightarrow> string" where
  "JSON_stringify xs = ''['' @ joinWith '','' (map jsonQuote xs) @ '']''"

text \<open>
  \<^verbatim>\<open>x || null\<close> on an optional string and on an optional number: the falsy values
  (undefined, the empty string, 0 and NaN) all give null.
\<close>

fun or_null_string :: "string option \<Rightarrow> string option" where
  "or_null_string None = None"
| "or_null_string (Some s) = (if s = [] then None else Some s)"

fun or_null_number :: "jsnum option \<Rightarrow> int option" where
  "or_null_number None = None"
| "or_null_number (Some NaN) = None"
| "or_null_number (Some (Num n)) = (if n = 0 then None else Some n)"

text \<open>\<^verbatim>\<open>Number.prototype.toString\<close> on an integer: its decimal digits.\<close>

function decimalDigits :: "nat \<Rightarrow> string" where
  "decimalDigits n =
     (if n < 10 then [char_of (48 + n)]
      else decimalDigits (n div 10) @ [char_of (48 + n mod 10)])"
  by pat_completeness auto
termination
  by (relation "measure (\<lambda>n. n)") auto

declare decimalDigits.simps [simp del]

definition toString :: "int \<Rightarrow> string" where
  "toString i = (if i < 0 then CHR ''-'' # decimalDigits (nat (- i)) else decimalDigits (nat i))"

text \<open>\<^verbatim>\<open>rows.item(0)\<close>: the first row, undefined (None) when there is none.\<close>

fun item0 :: "'a list \<Rightarrow> 'a option" where
  "item0 [] = None"
| "item0 (x # xs) = Some x"

section \<open>The schedule form (ScheduleForm.tsx)\<close>

datatype schedule_type = Time | Charge | Mileage

text \<open>The state of the form: every input is a string as typed by the user.\<close>

record FormData =
  fd_name :: string
  fd_type :: schedule_type
  fd_days :: "string list"
  fd_startTime :: string
  fd_endTime :: string
  fd_readyByTime :: string
  fd_desiredChargeLevel :: string
  fd_desiredMileage :: string

text \<open>
  \<^verbatim>\<open>Partial<Schedule>\<close>: every key is optional; None stands for a key that is absent or
  whose value is undefined.
\<close>

record PartialSchedule =
  p_id :: "int option"
  p_userId :: "int option"
  p_type :: "schedule_type option"
  p_name :: "string option"
  p_days :: "string option"
  p_startTime :: "string option"
  p_endTime :: "string option"
  p_readyByTime :: "string option"
  p_desiredChargeLevel :: "jsnum option"
  p_desiredMileage :: "jsnum option"
  p_isActive :: "bool option"
  p_createdAt :: "string option"

text \<open>
  The failures of the form. Each is an alert followed by a return; \<open>alertMessage\<close>
  gives the text the source shows for it.
\<close>

datatype form_field =
  F_name | F_days | F_startTime_endTime | F_readyByTime | F_desiredChargeLevel | F_desiredMileage

datatype validation_error = MissingField form_field | OutOfRange form_field

fun alertMessage :: "validation_error \<Rightarrow> string" where
  "alertMessage (MissingField F_name) = ''Please enter a schedule name''"
| "alertMessage (MissingField F_days) = ''Please select at least one day''"
| "alertMessage (MissingField F_startTime_endTime) = ''Please enter both start and end times''"
| "alertMessage (MissingField F_readyByTime) = ''Please enter a ready by time''"
| "alertMessage (OutOfRange F_desiredChargeLevel) = ''Charge level must be between 0 and 100''"
| "alertMessage (OutOfRange F_desiredMileage) = ''Mileage must be between 0 and 250''"
| "alertMessage other = []"

text \<open>
  \<^verbatim>\<open>handleSubmit\<close>: the checks in the order of the source, each ending the function
  with its alert; when all pass, the payload handed to \<^verbatim>\<open>onSubmit\<close>.
\<close>

definition handleSubmit :: "FormData \<Rightarrow> validation_error + PartialSchedule" where
  "handleSubmit formData =
     (if trim (fd_name formData) = [] then Inl (MissingField F_name)
      else if length (fd_days formData) = 0 then Inl (MissingField F_days)
      else if fd_type formData = Time \<and> (fd_startTime formData = [] \<or> fd_endTime formData = [])
        then Inl (MissingField F_startTime_endTime)
      else if fd_type formData \<noteq> Time \<and> fd_readyByTime formData = []
        then Inl (MissingField F_readyByTime)
      else if fd_type formData = Charge \<and>
              (let chargeLevel = parseInt (fd_desiredChargeLevel formData)
               in isNaN chargeLevel \<or> js_lt chargeLevel 0 \<or> js_gt chargeLevel 100)
        then Inl (OutOfRange F_desiredChargeLevel)
      else if fd_type formData = Mileage \<and>
              (let mileage = parseInt (fd_desiredMileage formData)
               in isNaN mileage \<or> js_lt mileage 0 \<or> js_gt mileage 250)
        then Inl (OutOfRange F_desiredMileage)
      else Inr \<lparr>
        p_id = None,
        p_userId = None,
        p_type = Some (fd_type formData),
        p_name = Some (trim (fd_name formData)),
        p_days = Some (JSON_stringify (fd_days formData)),
        p_startTime = (if fd_type formData = Time then Some (fd_startTime formData) else None),
        p_endTime = (if fd_type formData = Time then Some (fd_endTime formData) else None),
        p_readyByTime = (if fd_type formData \<noteq> Time then Some (fd_readyByTime formData) else None),
        p_desiredChargeLevel =
          (if fd_type formData = Charge then Some (parseInt (fd_desiredChargeLevel formData)) else None),
        p_desiredMileage =
          (if fd_type formData = Mileage then Some (parseInt (fd_desiredMileage formData)) else None),
        p_isActive = Some True,
        p_createdAt = None \<rparr>)"

text \<open>
  Names for two conditions of \<^verbatim>\<open>handleSubmit\<close>: the first three checks pass, and
  the range test of the source passes, that is, the number \<open>x\<close> that \<open>parseInt\<close>
  returns for the input does not satisfy \<^verbatim>\<open>isNaN(x) || x < lo || x > hi\<close>. The second
  is the code's test on the code's parser; it holds of inputs such as 2.5 and 12abc.
\<close>

definition presenceChecksPass :: "FormData \<Rightarrow> bool" where
  "presenceChecksPass formData =
     (trim (fd_name formData) \<noteq> [] \<and> fd_days formData \<noteq> [] \<and>
      (if fd_type formData = Time
       then fd_startTime formData \<noteq> [] \<and> fd_endTime formData \<noteq> []
       else fd_readyByTime formData \<noteq> []))"

definition passesRangeTest :: "string \<Rightarrow> int \<Rightarrow> int \<Rightarrow> bool" where
  "passesRangeTest s lo hi = (case parseInt s of NaN \<Rightarrow> False | Num n \<Rightarrow> lo \<le> n \<and> n \<le> hi)"

text \<open>
  The words of the specification, "parses as an integer in [lo, hi]", read on their
  own and not taken from the source: an integer numeral is an optional sign followed by
  one or more decimal digits and nothing else, and its value is the decimal value of
  the digits.
\<close>

definition isDecimalDigit :: "char \<Rightarrow> bool" where
  "isDecimalDigit c = (48 \<le> (of_char c :: nat) \<and> (of_char c :: nat) \<le> 57)"

definition decimalValue :: "string \<Rightarrow> nat" where
  "decimalValue ds = foldl (\<lambda>acc c. 10 * acc + (of_char c - 48)) 0 ds"

definition unsignedNumeral :: "string \<Rightarrow> nat option" where
  "unsignedNumeral ds =
     (if ds \<noteq> [] \<and> list_all isDecimalDigit ds then Some (decimalValue ds) else None)"

definition integerNumeral :: "string \<Rightarrow> int option" where
  "integerNumeral s =
     (case s of
        [] \<Rightarrow> None
      | c # cs \<Rightarrow>
          if c = CHR ''-'' then map_option (\<lambda>v. - int v) (unsignedNumeral cs)
          else if c = CHR ''+'' then map_option int (unsignedNumeral cs)
          else map_option int (unsignedNumeral s))"

definition integerIn :: "string \<Rightarrow> int \<Rightarrow> int \<Rightarrow> bool" where
  "integerIn s lo hi = (case integerNumeral s of None \<Rightarrow> False | Some n \<Rightarrow> lo \<le> n \<and> n \<le> hi)"

section \<open>The store (DatabaseService)\<close>

text \<open>
  The repository holds two versions of the service over the same two tables. The one the
  application imports (\<^verbatim>\<open>initialize\<close>, in part_001) keeps the plain names below; the
  other (\<^verbatim>\<open>initDatabase\<close>, in part_000) has the suffix \<open>_part000\<close>. The statements
  of both are modelled once, as functions on the tables.

  Rows are records. Nullable columns are options, \<open>isActive\<close> is the integer the
  source writes. The tables are lists in insertion order; the counters are the
  AUTOINCREMENT counters of the engine. Operations of part_001 are modelled on a service
  whose \<^verbatim>\<open>initialize()\<close> has completed, so that the call at the start of each of them
  returns at once. A failure of the storage engine itself is not modelled. Foreign keys
  are declared in both schemas but neither file turns their enforcement on, so an insert
  is not checked against the users table.
\<close>

record User =
  u_id :: int
  u_username :: string
  u_email :: string
  u_password :: string
  u_createdAt :: string

record Schedule =
  s_id :: int
  s_userId :: int
  s_type :: schedule_type
  s_name :: string
  s_days :: string
  s_startTime :: "string option"
  s_endTime :: "string option"
  s_readyByTime :: "string option"
  s_desiredChargeLevel :: "int option"
  s_desiredMileage :: "int option"
  s_isActive :: int
  s_createdAt :: string

text \<open>\<^verbatim>\<open>Omit<Schedule, 'id' | 'createdAt'>\<close>, the argument of \<^verbatim>\<open>createSchedule\<close>.\<close>

record NewSchedule =
  n_userId :: int
  n_type :: schedule_type
  n_name :: string
  n_days :: string
  n_startTime :: "string option"
  n_endTime :: "string option"
  n_readyByTime :: "string option"
  n_desiredChargeLevel :: "jsnum option"
  n_desiredMileage :: "jsnum option"
  n_isActive :: bool

record database =
  users :: "User list"
  users_seq :: int
  schedules :: "Schedule list"
  schedules_seq :: int

datatype constraint =
  Unique_username | Unique_email | Check_desiredChargeLevel | Check_desiredMileage

text \<open>
  The rejections of the service: \<^verbatim>\<open>Error('Database not initialized')\<close> (part_000),
  \<^verbatim>\<open>Error('You can only have up to 10 schedules.')\<close> (part_001), and the error of a
  statement that breaks a constraint of its table.
\<close>

datatype db_error = NotInitialized | QuotaExceeded | ConstraintViolation constraint

subsection \<open>The SQL statements\<close>

text \<open>
  INTEGER PRIMARY KEY AUTOINCREMENT: the new id is one more than the largest id the
  table has ever held (the counter, or a larger id present in the table).
\<close>

definition next_rowid :: "int \<Rightarrow> int list \<Rightarrow> int" where
  "next_rowid seq ids = fold max ids seq + 1"

text \<open>
  \<^verbatim>\<open>INSERT INTO users (username, email, password, createdAt) VALUES (?, ?, ?, ?)\<close>,
  with the two UNIQUE columns. The result is \<^verbatim>\<open>insertId\<close>. In part_000 the fourth
  value is the column's default, the time of the insert. A rejected insert changes
  nothing. When both columns clash the engine reports one of them; the model names the
  username.
\<close>

definition insert_user ::
  "string \<Rightarrow> string \<Rightarrow> string \<Rightarrow> string \<Rightarrow> database \<Rightarrow> (db_error + int) \<times> database" where
  "insert_user username email password createdAt db =
     (if username \<in> set (map u_username (users db))
        then (Inl (ConstraintViolation Unique_username), db)
      else if email \<in> set (map u_email (users db))
        then (Inl (ConstraintViolation Unique_email), db)
      else
        let userId = next_rowid (users_seq db) (map u_id (users db))
        in (Inr userId,
            db\<lparr>users := users db @
                  [\<lparr>u_id = userId, u_username = username, u_email = email,
                    u_password = password, u_createdAt = createdAt\<rparr>],
                users_seq := userId\<rparr>))"

text \<open>\<^verbatim>\<open>SELECT * FROM users WHERE id = ?\<close> and \<^verbatim>\<open>... WHERE username = ?\<close>.\<close>

definition select_users_by_id :: "int \<Rightarrow> database \<Rightarrow> User list" where
  "select_users_by_id userId db = filter (\<lambda>u. u_id u = userId) (users db)"

definition select_users_by_username :: "string \<Rightarrow> database \<Rightarrow> User list" where
  "select_users_by_username username db = filter (\<lambda>u. u_username u = username) (users db)"

text \<open>
  The CHECK constraints of the schedules table on the two numeric columns; a NULL passes.
  Only part_000 declares them. The CHECK on \<open>type\<close> and the NOT NULL columns hold by the
  types of the record.
\<close>

definition check_part000 :: "Schedule \<Rightarrow> constraint option" where
  "check_part000 r =
     (if (case s_desiredChargeLevel r of None \<Rightarrow> False | Some v \<Rightarrow> \<not> (v \<ge> 0 \<and> v \<le> 100))
        then Some Check_desiredChargeLevel
      else if (case s_desiredMileage r of None \<Rightarrow> False | Some v \<Rightarrow> \<not> (v \<ge> 0 \<and> v \<le> 250))
        then Some Check_desiredMileage
      else None)"

definition check_part001 :: "Schedule \<Rightarrow> constraint option" where
  "check_part001 r = None"

text \<open>\<^verbatim>\<open>SELECT COUNT(*) as count FROM schedules WHERE userId = ?\<close>\<close>

definition count_schedules :: "int \<Rightarrow> database \<Rightarrow> int" where
  "count_schedules userId db = int (length (filter (\<lambda>r. s_userId r = userId) (schedules db)))"

text \<open>
  \<^verbatim>\<open>INSERT INTO schedules (userId, type, ..., isActive, createdAt) VALUES (?, ..., ?)\<close>
  under the table's checks \<open>chk\<close>; the result is \<^verbatim>\<open>insertId\<close>. A rejected insert
  changes nothing.
\<close>

definition insert_schedule ::
  "(Schedule \<Rightarrow> constraint option) \<Rightarrow> int \<Rightarrow> schedule_type \<Rightarrow> string \<Rightarrow> string \<Rightarrow>
   string option \<Rightarrow> string option \<Rightarrow> string option \<Rightarrow> int option \<Rightarrow> int option \<Rightarrow> int \<Rightarrow> string \<Rightarrow>
   database \<Rightarrow> (db_error + int) \<times> database" where
  "insert_schedule chk userId type name days startTime endTime readyByTime
       desiredChargeLevel desiredMileage isActive createdAt db =
     (let scheduleId = next_rowid (schedules_seq db) (map s_id (schedules db));
          row = \<lparr>s_id = scheduleId, s_userId = userId, s_type = type, s_name = name,
                 s_days = days, s_startTime = startTime, s_endTime = endTime,
                 s_readyByTime = readyByTime, s_desiredChargeLevel = desiredChargeLevel,
                 s_desiredMileage = desiredMileage, s_isActive = isActive,
                 s_createdAt = createdAt\<rparr>
      in case chk row of
           Some c \<Rightarrow> (Inl (ConstraintViolation c), db)
         | None \<Rightarrow> (Inr scheduleId, db\<lparr>schedules := schedules db @ [row],
                                         schedules_seq := scheduleId\<rparr>))"

text \<open>\<^verbatim>\<open>SELECT * FROM schedules WHERE id = ?\<close>\<close>

definition select_schedules_by_id :: "int \<Rightarrow> database \<Rightarrow> Schedule list" where
  "select_schedules_by_id scheduleId db = filter (\<lambda>r. s_id r = scheduleId) (schedules db)"

text \<open>
  \<^verbatim>\<open>SELECT * FROM schedules WHERE userId = ? ORDER BY createdAt DESC\<close>. The column is
  text and is compared as text. SQL leaves the order of rows with equal \<open>createdAt\<close>
  open; this sort keeps them in table order.
\<close>

definition select_schedules_by_userId :: "int \<Rightarrow> database \<Rightarrow> Schedule list" where
  "select_schedules_by_userId userId db =
     rev (sort_key s_createdAt (rev (filter (\<lambda>r. s_userId r = userId) (schedules db))))"

text \<open>\<^verbatim>\<open>DELETE FROM schedules WHERE id = ?\<close>\<close>

definition delete_schedules :: "int \<Rightarrow> database \<Rightarrow> database" where
  "delete_schedules scheduleId db =
     db\<lparr>schedules := filter (\<lambda>r. s_id r \<noteq> scheduleId) (schedules db)\<rparr>"

text \<open>
  The update set of \<^verbatim>\<open>updateSchedule\<close>, the arrays \<^verbatim>\<open>fields\<close> and \<^verbatim>\<open>values\<close> of the
  source taken together. \<open>entries\<close> lists the keys of the payload
  that carry a value (the test \<^verbatim>\<open>value !== undefined\<close> of the source); \<open>update_fields\<close>
  drops the key \<^verbatim>\<open>id\<close>. The keys are listed in the order of the interface; each column
  occurs at most once, so the order of the assignments has no effect.
\<close>

datatype entry =
  E_id int
| E_userId int
| E_type schedule_type
| E_name string
| E_days string
| E_startTime string
| E_endTime string
| E_readyByTime string
| E_desiredChargeLevel jsnum
| E_desiredMileage jsnum
| E_isActive bool
| E_createdAt string

fun opt_entry :: "('a \<Rightarrow> entry) \<Rightarrow> 'a option \<Rightarrow> entry list" where
  "opt_entry E None = []"
| "opt_entry E (Some v) = [E v]"

definition entries :: "PartialSchedule \<Rightarrow> entry list" where
  "entries schedule =
     opt_entry E_id (p_id schedule) @
     opt_entry E_userId (p_userId schedule) @
     opt_entry E_type (p_type schedule) @
     opt_entry E_name (p_name schedule) @
     opt_entry E_days (p_days schedule) @
     opt_entry E_startTime (p_startTime schedule) @
     opt_entry E_endTime (p_endTime schedule) @
     opt_entry E_readyByTime (p_readyByTime schedule) @
     opt_entry E_desiredChargeLevel (p_desiredChargeLevel schedule) @
     opt_entry E_desiredMileage (p_desiredMileage schedule) @
     opt_entry E_isActive (p_isActive schedule) @
     opt_entry E_createdAt (p_createdAt schedule)"

fun key_is_id :: "entry \<Rightarrow> bool" where
  "key_is_id (E_id v) = True"
| "key_is_id e = False"

definition update_fields :: "PartialSchedule \<Rightarrow> entry list" where
  "update_fields schedule = filter (\<lambda>e. \<not> key_is_id e) (entries schedule)"

text \<open>
  A number bound to a statement as it is (no \<^verbatim>\<open>|| null\<close>): NaN is stored as NULL.
  A boolean is stored as 1 or 0.
\<close>

fun bind_number :: "jsnum \<Rightarrow> int option" where
  "bind_number NaN = None"
| "bind_number (Num n) = Some n"

text \<open>One assignment \<^verbatim>\<open>key = ?\<close> of the SET clause, on one row.\<close>

fun set_column :: "entry \<Rightarrow> Schedule \<Rightarrow> Schedule" where
  "set_column (E_id v) r = r\<lparr>s_id := v\<rparr>"
| "set_column (E_userId v) r = r\<lparr>s_userId := v\<rparr>"
| "set_column (E_type v) r = r\<lparr>s_type := v\<rparr>"
| "set_column (E_name v) r = r\<lparr>s_name := v\<rparr>"
| "set_column (E_days v) r = r\<lparr>s_days := v\<rparr>"
| "set_column (E_startTime v) r = r\<lparr>s_startTime := Some v\<rparr>"
| "set_column (E_endTime v) r = r\<lparr>s_endTime := Some v\<rparr>"
| "set_column (E_readyByTime v) r = r\<lparr>s_readyByTime := Some v\<rparr>"
| "set_column (E_desiredChargeLevel v) r = r\<lparr>s_desiredChargeLevel := bind_number v\<rparr>"
| "set_column (E_desiredMileage v) r = r\<lparr>s_desiredMileage := bind_number v\<rparr>"
| "set_column (E_isActive v) r = r\<lparr>s_isActive := (if v then 1 else 0)\<rparr>"
| "set_column (E_createdAt v) r = r\<lparr>s_createdAt := v\<rparr>"

text \<open>
  \<^verbatim>\<open>UPDATE schedules SET k1 = ?, k2 = ?, ... WHERE id = ?\<close> under the table's checks:
  the rows with that id get the assignments, every other row is left as it is, and
  no row with that id is no error. A row that breaks a check aborts the statement,
  which then changes nothing.
\<close>

definition update_schedules ::
  "(Schedule \<Rightarrow> constraint option) \<Rightarrow> entry list \<Rightarrow> int \<Rightarrow> database \<Rightarrow> (db_error + unit) \<times> database" where
  "update_schedules chk assignments scheduleId db =
     (case List.map_filter
             (\<lambda>r. if s_id r = scheduleId then chk (fold set_column assignments r) else None)
             (schedules db) of
        c # cs \<Rightarrow> (Inl (ConstraintViolation c), db)
      | [] \<Rightarrow>
          (Inr (),
           db\<lparr>schedules :=
                map (\<lambda>r. if s_id r = scheduleId then fold set_column assignments r else r)
                    (schedules db)\<rparr>))"

subsection \<open>The service the application imports (part_001)\<close>

text \<open>
  \<open>now\<close> is the reading of the clock, \<^verbatim>\<open>new Date().toISOString()\<close>. A write returns
  its result together with the database after it.
\<close>

definition createUser ::
  "string \<Rightarrow> string \<Rightarrow> string \<Rightarrow> string \<Rightarrow> database \<Rightarrow> (db_error + User option) \<times> database" where
  "createUser username email password now db =
     (case insert_user username email password now db of
        (Inl error, db') \<Rightarrow> (Inl error, db')
      | (Inr userId, db') \<Rightarrow> (Inr (item0 (select_users_by_id userId db')), db'))"

definition getUserByUsername :: "string \<Rightarrow> database \<Rightarrow> User option" where
  "getUserByUsername username db =
     (let rows = select_users_by_username username db
      in if length rows > 0 then item0 rows else None)"

definition getUserById :: "int \<Rightarrow> database \<Rightarrow> User option" where
  "getUserById userId db =
     (let rows = select_users_by_id userId db
      in if length rows > 0 then item0 rows else None)"

definition createSchedule ::
  "NewSchedule \<Rightarrow> string \<Rightarrow> database \<Rightarrow> (db_error + Schedule option) \<times> database" where
  "createSchedule scheduleData now db =
     (let count = count_schedules (n_userId scheduleData) db
      in if count \<ge> 10 then (Inl QuotaExceeded, db)
         else
           case insert_schedule check_part001
                  (n_userId scheduleData)
                  (n_type scheduleData)
                  (n_name scheduleData)
                  (n_days scheduleData)
                  (or_null_string (n_startTime scheduleData))
                  (or_null_string (n_endTime scheduleData))
                  (or_null_string (n_readyByTime scheduleData))
                  (or_null_number (n_desiredChargeLevel scheduleData))
                  (or_null_number (n_desiredMileage scheduleData))
                  (if n_isActive scheduleData then 1 else 0)
                  now db of
             (Inl error, db') \<Rightarrow> (Inl error, db')
           | (Inr scheduleId, db') \<Rightarrow> (Inr (item0 (select_schedules_by_id scheduleId db')), db'))"

text \<open>The loop over \<^verbatim>\<open>results.rows\<close> copies the rows, in their order, into the result.\<close>

definition getSchedulesByUserId :: "int \<Rightarrow> database \<Rightarrow> Schedule list" where
  "getSchedulesByUserId userId db = select_schedules_by_userId userId db"

definition updateSchedule ::
  "int \<Rightarrow> PartialSchedule \<Rightarrow> database \<Rightarrow> (db_error + unit) \<times> database" where
  "updateSchedule scheduleId updatedFields db =
     (let fieldsAndValues = update_fields updatedFields
      in if length fieldsAndValues = 0 then (Inr (), db)
         else update_schedules check_part001 fieldsAndValues scheduleId db)"

definition deleteSchedule :: "int \<Rightarrow> database \<Rightarrow> (db_error + unit) \<times> database" where
  "deleteSchedule scheduleId db = (Inr (), delete_schedules scheduleId db)"

text \<open>\<^verbatim>\<open>ScheduleService.getScheduleCount\<close>: the length of the user's list.\<close>

definition getScheduleCount :: "int \<Rightarrow> database \<Rightarrow> int" where
  "getScheduleCount userId db = int (length (getSchedulesByUserId userId db))"

subsection \<open>The other version of the service (part_000)\<close>

text \<open>
  Here \<^verbatim>\<open>this.db\<close> is null (None) until \<^verbatim>\<open>initDatabase\<close> has run, and every method
  rejects on a null handle. \<open>now\<close> is the time the engine writes as the default of
  \<open>createdAt\<close>. \<^verbatim>\<open>createSchedule\<close> has no count of the user's schedules.
\<close>

definition createSchedule_part000 ::
  "NewSchedule \<Rightarrow> string \<Rightarrow> database option \<Rightarrow> (db_error + Schedule option) \<times> database option" where
  "createSchedule_part000 schedule now handle =
     (case handle of
        None \<Rightarrow> (Inl NotInitialized, None)
      | Some db \<Rightarrow>
          (case insert_schedule check_part000
                  (n_userId schedule)
                  (n_type schedule)
                  (n_name schedule)
                  (n_days schedule)
                  (or_null_string (n_startTime schedule))
                  (or_null_string (n_endTime schedule))
                  (or_null_string (n_readyByTime schedule))
                  (or_null_number (n_desiredChargeLevel schedule))
                  (or_null_number (n_desiredMileage schedule))
                  (if n_isActive schedule then 1 else 0)
                  now db of
             (Inl error, db') \<Rightarrow> (Inl error, Some db')
           | (Inr scheduleId, db') \<Rightarrow>
               (Inr (item0 (select_schedules_by_id scheduleId db')), Some db')))"

definition getSchedulesByUserId_part000 :: "int \<Rightarrow> database option \<Rightarrow> db_error + Schedule list" where
  "getSchedulesByUserId_part000 userId handle =
     (case handle of
        None \<Rightarrow> Inl NotInitialized
      | Some db \<Rightarrow> Inr (select_schedules_by_userId userId db))"

definition updateSchedule_part000 ::
  "int \<Rightarrow> PartialSchedule \<Rightarrow> database option \<Rightarrow> (db_error + unit) \<times> database option" where
  "updateSchedule_part000 scheduleId schedule handle =
     (case handle of
        None \<Rightarrow> (Inl NotInitialized, None)
      | Some db \<Rightarrow>
          (let fieldsAndValues = update_fields schedule
           in if length fieldsAndValues = 0 then (Inr (), Some db)
              else case update_schedules check_part000 fieldsAndValues scheduleId db of
                     (result, db') \<Rightarrow> (result, Some db')))"

definition deleteSchedule_part000 ::
  "int \<Rightarrow> database option \<Rightarrow> (db_error + unit) \<times> database option" where
  "deleteSchedule_part000 scheduleId handle =
     (case handle of
        None \<Rightarrow> (Inl NotInitialized, None)
      | Some db \<Rightarrow> (Inr (), Some (delete_schedules scheduleId db)))"

section \<open>Registration (AuthContext.tsx)\<close>

text \<open>
  The state around \<^verbatim>\<open>register\<close>: the database, the signed-in user of the provider, the
  item \<^verbatim>\<open>user_id\<close> of AsyncStorage, and a log of the calls made to the service,
  which is not in the source and only records which methods a run has invoked.
  \<open>setItemOk\<close> says whether \<^verbatim>\<open>AsyncStorage.setItem\<close> succeeds; every exception ends
  in the \<^verbatim>\<open>catch\<close>, which returns false.
\<close>

datatype db_call = Call_getUserByUsername string | Call_createUser string string string

record AuthState =
  a_db :: database
  a_user :: "User option"
  a_user_id_item :: "string option"
  a_calls :: "db_call list"

definition register ::
  "string \<Rightarrow> string \<Rightarrow> string \<Rightarrow> string \<Rightarrow> bool \<Rightarrow> AuthState \<Rightarrow> bool \<times> AuthState" where
  "register username email password now setItemOk st =
     (let st1 = st\<lparr>a_calls := a_calls st @ [Call_getUserByUsername username]\<rparr>
      in case getUserByUsername username (a_db st1) of
           Some existingUser \<Rightarrow> (False, st1)
         | None \<Rightarrow>
             (let st2 = st1\<lparr>a_calls := a_calls st1 @ [Call_createUser username email password]\<rparr>
              in case createUser username email password now (a_db st2) of
                   (Inl error, db') \<Rightarrow> (False, st2\<lparr>a_db := db'\<rparr>)
                 | (Inr None, db') \<Rightarrow> (False, st2\<lparr>a_db := db', a_user := None\<rparr>)
                 | (Inr (Some newUser), db') \<Rightarrow>
                     (let st3 = st2\<lparr>a_db := db', a_user := Some newUser\<rparr>
                      in if setItemOk
                         then (True, st3\<lparr>a_user_id_item := Some (toString (u_id newUser))\<rparr>)
                         else (False, st3))))"

section \<open>Example inputs\<close>

text \<open>
  The charge schedule of the specification's scenario, as typed into the form, and the
  same schedule as an argument of \<^verbatim>\<open>createSchedule\<close> for user 1.
\<close>

definition form_night :: FormData where
  "form_night =
     \<lparr>fd_name = ''Night'', fd_type = Charge, fd_days = [''Monday'', ''Wednesday''],
      fd_startTime = [], fd_endTime = [], fd_readyByTime = ''07:00'',
      fd_desiredChargeLevel = ''80'', fd_desiredMileage = []\<rparr>"
definition db_empty :: database where
  "db_empty = \<lparr>users = [], users_seq = 0, schedules = [], schedules_seq = 0\<rparr>"

definition user_demo :: User where
  "user_demo =
     \<lparr>u_id = 1, u_username = ''demo'', u_email = ''demo@andersenev.com'',
      u_password = ''demo123'', u_createdAt = ''2024-01-01T00:00:00.000Z''\<rparr>"

definition night :: NewSchedule where
  "night =
     \<lparr>n_userId = 1, n_type = Charge, n_name = ''Night'',
      n_days = JSON_stringify [''Monday'', ''Wednesday''],
      n_startTime = None, n_endTime = None, n_readyByTime = Some ''07:00'',
      n_desiredChargeLevel = Some (Num 80), n_desiredMileage = None, n_isActive = True\<rparr>"

text \<open>A time schedule of user 1 with a given id and day of creation, and nine of them.\<close>

definition morning_row :: "int \<Rightarrow> string \<Rightarrow> Schedule" where
  "morning_row i day =
     \<lparr>s_id = i, s_userId = 1, s_type = Time, s_name = ''Morning'',
      s_days = JSON_stringify [''Monday''],
      s_startTime = Some ''06:00'', s_endTime = Some ''08:00'', s_readyByTime = None,
      s_desiredChargeLevel = None, s_desiredMileage = None, s_isActive = 1,
      s_createdAt = ''2024-01-'' @ day\<rparr>"

definition db_nine :: database where
  "db_nine =
     \<lparr>users = [user_demo], users_seq = 1,
      schedules = [morning_row 1 ''01'', morning_row 2 ''02'', morning_row 3 ''03'',
                   morning_row 4 ''04'', morning_row 5 ''05'', morning_row 6 ''06'',
                   morning_row 7 ''07'', morning_row 8 ''08'', morning_row 9 ''09''],
      schedules_seq = 9\<rparr>"

text \<open>A database with schedules of two users, not stored in the order of their creation.\<close>

definition db_two_users :: database where
  "db_two_users =
     \<lparr>users = [user_demo], users_seq = 1,
      schedules = [morning_row 1 ''01'', (morning_row 2 ''03'')\<lparr>s_userId := 2\<rparr>,
                   morning_row 3 ''05'', morning_row 4 ''02''],
      schedules_seq = 4\<rparr>"

text \<open>The stored row of the schedule \<open>night\<close>, as the tenth schedule of user 1.\<close>

definition night_row :: Schedule where
  "night_row =
     \<lparr>s_id = 10, s_userId = 1, s_type = Charge, s_name = ''Night'',
      s_days = JSON_stringify [''Monday'', ''Wednesday''],
      s_startTime = None, s_endTime = None, s_readyByTime = Some ''07:00'',
      s_desiredChargeLevel = Some 80, s_desiredMileage = None, s_isActive = 1,
      s_createdAt = ''2024-02-01''\<rparr>"

definition db_ten :: database where
  "db_ten = db_nine\<lparr>schedules := schedules db_nine @ [night_row], schedules_seq := 10\<rparr>"

text \<open>The application signed out, over the database with the demo user.\<close>

definition signed_out :: AuthState where
  "signed_out = \<lparr>a_db = db_nine, a_user = None, a_user_id_item = None, a_calls = []\<rparr>"

text \<open>The payload \<^verbatim>\<open>{desiredChargeLevel: 50}\<close> and the empty payload.\<close>

definition no_fields :: PartialSchedule where
  "no_fields =
     \<lparr>p_id = None, p_userId = None, p_type = None, p_name = None, p_days = None,
      p_startTime = None, p_endTime = None, p_readyByTime = None,
      p_desiredChargeLevel = None, p_desiredMileage = None, p_isActive = None,
      p_createdAt = None\<rparr>"

definition charge_50 :: PartialSchedule where
  "charge_50 = no_fields\<lparr>p_desiredChargeLevel := Some (Num 50)\<rparr>"

section \<open>Vocabulary of the statements about the store\<close>

text \<open>
  A well-formed argument of \<^verbatim>\<open>createSchedule\<close>, after the data model of the
  specification: the name is not blank, the fields of the schedule's type are populated
  and within their ranges, and the fields of the other types are absent.
\<close>

fun present :: "string option \<Rightarrow> bool" where
  "present None = False"
| "present (Some s) = (s \<noteq> [])"

fun within :: "int \<Rightarrow> int \<Rightarrow> jsnum option \<Rightarrow> bool" where
  "within lo hi (Some (Num n)) = (lo \<le> n \<and> n \<le> hi)"
| "within lo hi other = False"

definition valid_payload :: "NewSchedule \<Rightarrow> bool" where
  "valid_payload d =
     (trim (n_name d) \<noteq> [] \<and>
      (case n_type d of
         Time \<Rightarrow>
           present (n_startTime d) \<and> present (n_endTime d) \<and> n_readyByTime d = None \<and>
           n_desiredChargeLevel d = None \<and> n_desiredMileage d = None
       | Charge \<Rightarrow>
           present (n_readyByTime d) \<and> within 0 100 (n_desiredChargeLevel d) \<and>
           n_startTime d = None \<and> n_endTime d = None \<and> n_desiredMileage d = None
       | Mileage \<Rightarrow>
           present (n_readyByTime d) \<and> within 0 250 (n_desiredMileage d) \<and>
           n_startTime d = None \<and> n_endTime d = None \<and> n_desiredChargeLevel d = None))"

text \<open>The number a submitted value stands for, as the column would hold it.\<close>

fun submitted_number :: "jsnum option \<Rightarrow> int option" where
  "submitted_number (Some (Num n)) = Some n"
| "submitted_number other = None"

text \<open>
  What a partial update is meant to do to one row, field by field: a field of the
  payload that has a value replaces the column, an omitted one leaves it, and the id
  stays.
\<close>

definition updated_row :: "PartialSchedule \<Rightarrow> Schedule \<Rightarrow> Schedule" where
  "updated_row p r =
     \<lparr>s_id = s_id r,
      s_userId = (case p_userId p of None \<Rightarrow> s_userId r | Some v \<Rightarrow> v),
      s_type = (case p_type p of None \<Rightarrow> s_type r | Some v \<Rightarrow> v),
      s_name = (case p_name p of None \<Rightarrow> s_name r | Some v \<Rightarrow> v),
      s_days = (case p_days p of None \<Rightarrow> s_days r | Some v \<Rightarrow> v),
      s_startTime = (case p_startTime p of None \<Rightarrow> s_startTime r | Some v \<Rightarrow> Some v),
      s_endTime = (case p_endTime p of None \<Rightarrow> s_endTime r | Some v \<Rightarrow> Some v),
      s_readyByTime = (case p_readyByTime p of None \<Rightarrow> s_readyByTime r | Some v \<Rightarrow> Some v),
      s_desiredChargeLevel =
        (case p_desiredChargeLevel p of None \<Rightarrow> s_desiredChargeLevel r | Some v \<Rightarrow> bind_number v),
      s_desiredMileage =
        (case p_desiredMileage p of None \<Rightarrow> s_desiredMileage r | Some v \<Rightarrow> bind_number v),
      s_isActive = (case p_isActive p of None \<Rightarrow> s_isActive r | Some v \<Rightarrow> (if v then 1 else 0)),
      s_createdAt = (case p_createdAt p of None \<Rightarrow> s_createdAt r | Some v \<Rightarrow> v)\<rparr>"

text \<open>Between a row and its successor, only fields present in the payload differ.\<close>

definition only_present_fields_changed :: "PartialSchedule \<Rightarrow> Schedule \<Rightarrow> Schedule \<Rightarrow> bool" where
  "only_present_fields_changed p r r' =
     (s_id r' = s_id r \<and>
      (p_userId p = None \<longrightarrow> s_userId r' = s_userId r) \<and>
      (p_type p = None \<longrightarrow> s_type r' = s_type r) \<and>
      (p_name p = None \<longrightarrow> s_name r' = s_name r) \<and>
      (p_days p = None \<longrightarrow> s_days r' = s_days r) \<and>
      (p_startTime p = None \<longrightarrow> s_startTime r' = s_startTime r) \<and>
      (p_endTime p = None \<longrightarrow> s_endTime r' = s_endTime r) \<and>
      (p_readyByTime p = None \<longrightarrow> s_readyByTime r' = s_readyByTime r) \<and>
      (p_desiredChargeLevel p = None \<longrightarrow> s_desiredChargeLevel r' = s_desiredChargeLevel r) \<and>
      (p_desiredMileage p = None \<longrightarrow> s_desiredMileage r' = s_desiredMileage r) \<and>
      (p_isActive p = None \<longrightarrow> s_isActive r' = s_isActive r) \<and>
      (p_createdAt p = None \<longrightarrow> s_createdAt r' = s_createdAt r))"

text \<open>
  What an update may do to the database: the users and the counters stay, the rows keep
  their places, a row with another id stays as it is, and in a row with the id only
  fields present in the payload differ.
\<close>

definition update_frame :: "int \<Rightarrow> PartialSchedule \<Rightarrow> database \<Rightarrow> database \<Rightarrow> bool" where
  "update_frame i p db db' =
     (users db' = users db \<and> users_seq db' = users_seq db \<and>
      schedules_seq db' = schedules_seq db \<and>
      list_all2 (\<lambda>r r'. if s_id r = i then only_present_fields_changed p r r' else r' = r)
        (schedules db) (schedules db'))"

section \<open>Properties of the form\<close>

lemma range_test_iff:
  "(isNaN x \<or> js_lt x lo \<or> js_gt x hi) = (\<not> (case x of NaN \<Rightarrow> False | Num n \<Rightarrow> lo \<le> n \<and> n \<le> hi))"
  by (cases x) auto

lemma handleSubmit_cases:
  "handleSubmit f =
     (if trim (fd_name f) = [] then Inl (MissingField F_name)
      else if fd_days f = [] then Inl (MissingField F_days)
      else if fd_type f = Time \<and> (fd_startTime f = [] \<or> fd_endTime f = [])
        then Inl (MissingField F_startTime_endTime)
      else if fd_type f \<noteq> Time \<and> fd_readyByTime f = []
        then Inl (MissingField F_readyByTime)
      else if fd_type f = Charge \<and> \<not> passesRangeTest (fd_desiredChargeLevel f) 0 100
        then Inl (OutOfRange F_desiredChargeLevel)
      else if fd_type f = Mileage \<and> \<not> passesRangeTest (fd_desiredMileage f) 0 250
        then Inl (OutOfRange F_desiredMileage)
      else Inr \<lparr>
        p_id = None,
        p_userId = None,
        p_type = Some (fd_type f),
        p_name = Some (trim (fd_name f)),
        p_days = Some (JSON_stringify (fd_days f)),
        p_startTime = (if fd_type f = Time then Some (fd_startTime f) else None),
        p_endTime = (if fd_type f = Time then Some (fd_endTime f) else None),
        p_readyByTime = (if fd_type f \<noteq> Time then Some (fd_readyByTime f) else None),
        p_desiredChargeLevel =
          (if fd_type f = Charge then Some (parseInt (fd_desiredChargeLevel f)) else None),
        p_desiredMileage =
          (if fd_type f = Mileage then Some (parseInt (fd_desiredMileage f)) else None),
        p_isActive = Some True,
        p_createdAt = None \<rparr>)"
  unfolding handleSubmit_def passesRangeTest_def Let_def range_test_iff by simp

lemma trim_examples:
  "trim ''Night'' = ''Night''" "trim ''  '' = []" "trim [] = []"
  by code_simp+

lemma passesRangeTest_examples:
  "passesRangeTest ''0'' 0 100" "passesRangeTest ''100'' 0 100" "passesRangeTest ''80'' 0 100"
  "\<not> passesRangeTest ''-1'' 0 100" "\<not> passesRangeTest ''101'' 0 100"
  "passesRangeTest ''0'' 0 250" "passesRangeTest ''250'' 0 250"
  "\<not> passesRangeTest ''-1'' 0 250" "\<not> passesRangeTest ''251'' 0 250"
  "\<not> passesRangeTest ''abc'' 0 100" "\<not> passesRangeTest [] 0 250"
  by code_simp+

lemma parseInt_examples:
  "parseInt ''0'' = Num 0" "parseInt ''100'' = Num 100" "parseInt ''250'' = Num 250"
  "parseInt ''80'' = Num 80" "parseInt ''2.5'' = Num 2" "parseInt ''abc'' = NaN"
  "parseInt ''12abc'' = Num 12" "parseInt ''101.5'' = Num 101"
  by code_simp+
lemma digit10_props:
  assumes "isRadixDigit 10 c"
  shows "\<not> isWhiteSpace c" "c \<noteq> CHR ''-''" "c \<noteq> CHR ''+''" "c \<noteq> CHR ''x''" "c \<noteq> CHR ''X''"
  using assms
  by (auto simp: isRadixDigit_def digitVal_def isWhiteSpace_def Let_def split: if_splits)

lemma dot_not_digit: "\<not> isRadixDigit R (CHR ''.'')"
  by (simp add: isRadixDigit_def digitVal_def)

lemma takeWhile_digits_dot:
  assumes "\<forall>c\<in>set ds. isRadixDigit 10 c"
  shows "takeWhile (isRadixDigit 10) (ds @ CHR ''.'' # rest) = ds"
  using assms by (induction ds) (auto simp: dot_not_digit)

text \<open>A decimal point ends the number: only the digits before it are read.\<close>

lemma parseInt_fraction:
  assumes "ds \<noteq> []" and "\<forall>c\<in>set ds. isRadixDigit 10 c"
  shows "parseInt (ds @ CHR ''.'' # rest) = Num (int (radixValue 10 ds))"
proof -
  from assms(1) obtain d ds' where ds: "ds = d # ds'" by (cases ds) auto
  with assms(2) have d: "isRadixDigit 10 d" by simp
  have notx: "\<not> (d = CHR ''0'' \<and> (hd (ds' @ CHR ''.'' # rest) = CHR ''x'' \<or> hd (ds' @ CHR ''.'' # rest) = CHR ''X''))"
  proof (cases ds')
    case Nil then show ?thesis by simp
  next
    case (Cons b bs)
    with assms(2) ds have "isRadixDigit 10 b" by simp
    from digit10_props(4,5)[OF this] Cons show ?thesis by simp
  qed
  have hex: "(case d # ds' @ CHR ''.'' # rest of a # b # _ \<Rightarrow> a = CHR ''0'' \<and> (b = CHR ''x'' \<or> b = CHR ''X'') | _ \<Rightarrow> False) = False"
    using notx by (cases "ds' @ CHR ''.'' # rest") auto
  have tw: "takeWhile (isRadixDigit 10) (d # ds' @ CHR ''.'' # rest) = d # ds'"
    using takeWhile_digits_dot[OF assms(2), of rest] ds by simp
  show ?thesis
    unfolding parseInt_def ds
    using digit10_props[OF d] hex tw
    by (simp add: Let_def)
qed

lemma radixValue_examples:
  "radixValue 10 ''2'' = 2" "radixValue 10 ''101'' = 101" "radixValue 10 ''100'' = 100"
  by code_simp+

lemma isRadixDigit_examples:
  "isRadixDigit 10 (CHR ''0'')" "isRadixDigit 10 (CHR ''1'')" "isRadixDigit 10 (CHR ''2'')"
  by code_simp+

text \<open>On integer numerals the parser of the code and the specification's reading agree.\<close>

lemma isDecimalDigit_iff: "isDecimalDigit c = isRadixDigit 10 c"
  by (auto simp: isDecimalDigit_def isRadixDigit_def digitVal_def Let_def)

lemma digitVal_decimal: "isDecimalDigit c \<Longrightarrow> digitVal c = Some (of_char c - 48)"
  by (simp add: isDecimalDigit_def digitVal_def Let_def)

lemma decimalValue_eq_radixValue:
  assumes "\<forall>c\<in>set ds. isDecimalDigit c"
  shows "decimalValue ds = radixValue 10 ds"
  unfolding decimalValue_def radixValue_def
  using assms by (intro foldl_cong) (auto simp: digitVal_decimal)

lemma takeWhile_digits_then:
  assumes "\<forall>c\<in>set ds. isRadixDigit 10 c"
    and "tail = [] \<or> \<not> isRadixDigit 10 (hd tail)"
  shows "takeWhile (isRadixDigit 10) (ds @ tail) = ds"
proof -
  have "takeWhile (isRadixDigit 10) tail = []"
    using assms(2) by (cases tail) auto
  then show ?thesis
    using assms(1) by (simp add: takeWhile_append2)
qed

lemma no_hex_prefix:
  assumes "ds \<noteq> []" and "\<forall>c\<in>set ds. isRadixDigit 10 c"
    and "tail = [] \<or> (hd tail \<noteq> CHR ''x'' \<and> hd tail \<noteq> CHR ''X'')"
  shows "(case ds @ tail of a # b # _ \<Rightarrow> a = CHR ''0'' \<and> (b = CHR ''x'' \<or> b = CHR ''X'') | _ \<Rightarrow> False) = False"
proof -
  from assms(1) obtain d ds' where ds: "ds = d # ds'" by (cases ds) auto
  show ?thesis
  proof (cases ds')
    case Nil
    with ds assms(3) show ?thesis by (cases tail) auto
  next
    case (Cons b bs)
    with assms(2) ds have "isRadixDigit 10 b" by simp
    from digit10_props(4,5)[OF this] Cons ds show ?thesis by simp
  qed
qed

lemma sign_not_white: "\<not> isWhiteSpace (CHR ''-'')" "\<not> isWhiteSpace (CHR ''+'')"
  by (simp_all add: isWhiteSpace_def)

lemma parseInt_unsigned:
  assumes "unsignedNumeral ds = Some v"
    and "tail = [] \<or> (\<not> isDecimalDigit (hd tail) \<and> hd tail \<noteq> CHR ''x'' \<and> hd tail \<noteq> CHR ''X'')"
  shows "parseInt (ds @ tail) = Num (int v)"
    and "parseInt (CHR ''-'' # ds @ tail) = Num (- int v)"
    and "parseInt (CHR ''+'' # ds @ tail) = Num (int v)"
proof -
  from assms(1) have ne: "ds \<noteq> []" and dig: "\<forall>c\<in>set ds. isDecimalDigit c"
    and v: "v = decimalValue ds"
    by (auto simp: unsignedNumeral_def list_all_iff split: if_splits)
  from dig have rdig: "\<forall>c\<in>set ds. isRadixDigit 10 c" by (simp add: isDecimalDigit_iff)
  from ne obtain d ds' where ds: "ds = d # ds'" by (cases ds) auto
  with rdig have d: "isRadixDigit 10 d" by simp
  have val: "radixValue 10 ds = v" using decimalValue_eq_radixValue [OF dig] v by simp
  have tw: "takeWhile (isRadixDigit 10) (ds @ tail) = ds"
    using takeWhile_digits_then [OF rdig, of tail] assms(2) by (auto simp: isDecimalDigit_iff)
  have hex: "(case ds @ tail of a # b # _ \<Rightarrow> a = CHR ''0'' \<and> (b = CHR ''x'' \<or> b = CHR ''X'') | _ \<Rightarrow> False) = False"
    using no_hex_prefix [OF ne rdig, of tail] assms(2) by auto
  have nonempty: "ds \<noteq> []" by (rule ne)
  show "parseInt (ds @ tail) = Num (int v)"
    unfolding parseInt_def
    using digit10_props [OF d] hex tw val nonempty
    by (simp add: Let_def ds)
  show "parseInt (CHR ''-'' # ds @ tail) = Num (- int v)"
    unfolding parseInt_def
    using hex tw val nonempty sign_not_white
    by (simp add: Let_def)
  show "parseInt (CHR ''+'' # ds @ tail) = Num (int v)"
    unfolding parseInt_def
    using hex tw val nonempty sign_not_white
    by (simp add: Let_def)
qed

lemma parseInt_integerNumeral:
  assumes "integerNumeral pre = Some n"
    and "tail = [] \<or> (\<not> isDecimalDigit (hd tail) \<and> hd tail \<noteq> CHR ''x'' \<and> hd tail \<noteq> CHR ''X'')"
  shows "parseInt (pre @ tail) = Num n"
proof -
  from assms(1) obtain c cs where pre: "pre = c # cs"
    by (cases pre) (auto simp: integerNumeral_def)
  show ?thesis
  proof (cases "c = CHR ''-''")
    case True
    with assms(1) pre obtain v where "unsignedNumeral cs = Some v" "n = - int v"
      by (auto simp: integerNumeral_def)
    with parseInt_unsigned(2) [OF this(1) assms(2)] pre True show ?thesis by simp
  next
    case False
    show ?thesis
    proof (cases "c = CHR ''+''")
      case True
      with assms(1) pre obtain v where "unsignedNumeral cs = Some v" "n = int v"
        by (auto simp: integerNumeral_def)
      with parseInt_unsigned(3) [OF this(1) assms(2)] pre True show ?thesis by simp
    next
      case plus: False
      with False assms(1) pre obtain v where "unsignedNumeral pre = Some v" "n = int v"
        by (auto simp: integerNumeral_def)
      with parseInt_unsigned(1) [OF this(1) assms(2)] show ?thesis by simp
    qed
  qed
qed

lemma integerNumeral_examples:
  "integerNumeral ''0'' = Some 0" "integerNumeral ''100'' = Some 100"
  "integerNumeral ''250'' = Some 250" "integerNumeral ''-1'' = Some (- 1)"
  "integerNumeral ''101'' = Some 101" "integerNumeral ''251'' = Some 251"
  "integerNumeral ''12'' = Some 12"
  "integerNumeral ''100.9'' = None" "integerNumeral ''1e3'' = None"
  by code_simp+

lemma integerIn_examples:
  "integerIn ''0'' 0 100" "integerIn ''100'' 0 100"
  "\<not> integerIn ''-1'' 0 100" "\<not> integerIn ''101'' 0 100"
  "integerIn ''0'' 0 250" "integerIn ''250'' 0 250"
  "\<not> integerIn ''-1'' 0 250" "\<not> integerIn ''251'' 0 250"
  "\<not> integerIn ''100.9'' 0 100" "\<not> integerIn ''1e3'' 0 250" "integerIn ''12'' 0 100"
  by code_simp+

lemma more_parseInt_examples:
  "parseInt ''100.9'' = Num 100" "parseInt ''1e3'' = Num 1"
  by code_simp+

lemma isDecimalDigit_examples:
  "\<not> isDecimalDigit (CHR ''a'')" "\<not> isDecimalDigit (CHR ''.'')" "\<not> isDecimalDigit (CHR ''e'')"
  by code_simp+

text \<open>
  C4, as the claim states it, fails: 100.9 and 1e3 are not integers, so they do not
  parse as an integer in the range, and yet the charge form with 100.9 and the mileage
  form with 1e3 pass the range check and submit 100 and 1.
\<close>

theorem range_check_counterexample:
  "\<not> integerIn ''100.9'' 0 100 \<and>
   handleSubmit (form_night\<lparr>fd_desiredChargeLevel := ''100.9''\<rparr>) =
     Inr \<lparr>p_id = None, p_userId = None, p_type = Some Charge, p_name = Some ''Night'',
          p_days = Some (JSON_stringify [''Monday'', ''Wednesday'']),
          p_startTime = None, p_endTime = None, p_readyByTime = Some ''07:00'',
          p_desiredChargeLevel = Some (Num 100), p_desiredMileage = None,
          p_isActive = Some True, p_createdAt = None\<rparr> \<and>
   \<not> integerIn ''1e3'' 0 250 \<and>
   handleSubmit (form_night\<lparr>fd_type := Mileage, fd_desiredMileage := ''1e3''\<rparr>) =
     Inr \<lparr>p_id = None, p_userId = None, p_type = Some Mileage, p_name = Some ''Night'',
          p_days = Some (JSON_stringify [''Monday'', ''Wednesday'']),
          p_startTime = None, p_endTime = None, p_readyByTime = Some ''07:00'',
          p_desiredChargeLevel = None, p_desiredMileage = Some (Num 1),
          p_isActive = Some True, p_createdAt = None\<rparr>"
  by (simp add: handleSubmit_cases form_night_def trim_examples passesRangeTest_def
        more_parseInt_examples integerIn_examples)

text \<open>
  C4, amended. With the checks before it passed, a charge submission whose input is an
  integer numeral fails with the charge-level alert exactly when that integer is not in
  0 to 100, and is submitted with the integer otherwise; the same holds when the
  numeral is followed by a character that is neither a digit nor x or X and by
  anything after it: the check judges the integer at the start of the input. A mileage
  submission likewise with 0 to 250. The values 0, 100 and 250 are in range; -1, 101
  and 251 are not.
\<close>

theorem range_checks_judge_leading_integer:
  assumes "presenceChecksPass f"
  shows
  "(fd_type f = Charge \<and> integerNumeral (fd_desiredChargeLevel f) = Some n \<longrightarrow>
      ((handleSubmit f = Inl (OutOfRange F_desiredChargeLevel)) =
         (\<not> integerIn (fd_desiredChargeLevel f) 0 100)) \<and>
      (integerIn (fd_desiredChargeLevel f) 0 100 \<longrightarrow>
         (\<exists>p. handleSubmit f = Inr p \<and> p_desiredChargeLevel p = Some (Num n)))) \<and>
   (fd_type f = Mileage \<and> integerNumeral (fd_desiredMileage f) = Some n \<longrightarrow>
      ((handleSubmit f = Inl (OutOfRange F_desiredMileage)) =
         (\<not> integerIn (fd_desiredMileage f) 0 250)) \<and>
      (integerIn (fd_desiredMileage f) 0 250 \<longrightarrow>
         (\<exists>p. handleSubmit f = Inr p \<and> p_desiredMileage p = Some (Num n)))) \<and>
   (fd_type f = Charge \<and> integerNumeral pre = Some n \<and>
    \<not> isDecimalDigit c \<and> c \<noteq> CHR ''x'' \<and> c \<noteq> CHR ''X'' \<and>
    fd_desiredChargeLevel f = pre @ c # rest \<longrightarrow>
      ((handleSubmit f = Inl (OutOfRange F_desiredChargeLevel)) = (\<not> integerIn pre 0 100)) \<and>
      (integerIn pre 0 100 \<longrightarrow>
         (\<exists>p. handleSubmit f = Inr p \<and> p_desiredChargeLevel p = Some (Num n)))) \<and>
   (fd_type f = Mileage \<and> integerNumeral pre = Some n \<and>
    \<not> isDecimalDigit c \<and> c \<noteq> CHR ''x'' \<and> c \<noteq> CHR ''X'' \<and>
    fd_desiredMileage f = pre @ c # rest \<longrightarrow>
      ((handleSubmit f = Inl (OutOfRange F_desiredMileage)) = (\<not> integerIn pre 0 250)) \<and>
      (integerIn pre 0 250 \<longrightarrow>
         (\<exists>p. handleSubmit f = Inr p \<and> p_desiredMileage p = Some (Num n)))) \<and>
   integerIn ''0'' 0 100 \<and> integerIn ''100'' 0 100 \<and>
   \<not> integerIn ''-1'' 0 100 \<and> \<not> integerIn ''101'' 0 100 \<and>
   integerIn ''0'' 0 250 \<and> integerIn ''250'' 0 250 \<and>
   \<not> integerIn ''-1'' 0 250 \<and> \<not> integerIn ''251'' 0 250"
proof -
  have whole: "parseInt s = Num n \<and> integerIn s lo hi = (lo \<le> n \<and> n \<le> hi)"
    if "integerNumeral s = Some n" for s lo hi
    using that parseInt_integerNumeral [OF that, of "[]"] by (simp add: integerIn_def)
  have start: "parseInt (pre @ c # rest) = Num n \<and> integerIn pre lo hi = (lo \<le> n \<and> n \<le> hi)"
    if "integerNumeral pre = Some n" "\<not> isDecimalDigit c" "c \<noteq> CHR ''x''" "c \<noteq> CHR ''X''" for lo hi
    using that parseInt_integerNumeral [OF that(1), of "c # rest"] by (simp add: integerIn_def)
  have a: "fd_type f = Charge \<and> integerNumeral (fd_desiredChargeLevel f) = Some n \<longrightarrow>
      ((handleSubmit f = Inl (OutOfRange F_desiredChargeLevel)) =
         (\<not> integerIn (fd_desiredChargeLevel f) 0 100)) \<and>
      (integerIn (fd_desiredChargeLevel f) 0 100 \<longrightarrow>
         (\<exists>p. handleSubmit f = Inr p \<and> p_desiredChargeLevel p = Some (Num n)))"
    using assms whole [of "fd_desiredChargeLevel f" 0 100]
    unfolding handleSubmit_cases presenceChecksPass_def passesRangeTest_def by auto
  have b: "fd_type f = Mileage \<and> integerNumeral (fd_desiredMileage f) = Some n \<longrightarrow>
      ((handleSubmit f = Inl (OutOfRange F_desiredMileage)) =
         (\<not> integerIn (fd_desiredMileage f) 0 250)) \<and>
      (integerIn (fd_desiredMileage f) 0 250 \<longrightarrow>
         (\<exists>p. handleSubmit f = Inr p \<and> p_desiredMileage p = Some (Num n)))"
    using assms whole [of "fd_desiredMileage f" 0 250]
    unfolding handleSubmit_cases presenceChecksPass_def passesRangeTest_def by auto
  have c: "fd_type f = Charge \<and> integerNumeral pre = Some n \<and>
    \<not> isDecimalDigit c \<and> c \<noteq> CHR ''x'' \<and> c \<noteq> CHR ''X'' \<and>
    fd_desiredChargeLevel f = pre @ c # rest \<longrightarrow>
      ((handleSubmit f = Inl (OutOfRange F_desiredChargeLevel)) = (\<not> integerIn pre 0 100)) \<and>
      (integerIn pre 0 100 \<longrightarrow>
         (\<exists>p. handleSubmit f = Inr p \<and> p_desiredChargeLevel p = Some (Num n)))"
    using assms start [of 0 100]
    unfolding handleSubmit_cases presenceChecksPass_def passesRangeTest_def by auto
  have d: "fd_type f = Mileage \<and> integerNumeral pre = Some n \<and>
    \<not> isDecimalDigit c \<and> c \<noteq> CHR ''x'' \<and> c \<noteq> CHR ''X'' \<and>
    fd_desiredMileage f = pre @ c # rest \<longrightarrow>
      ((handleSubmit f = Inl (OutOfRange F_desiredMileage)) = (\<not> integerIn pre 0 250)) \<and>
      (integerIn pre 0 250 \<longrightarrow>
         (\<exists>p. handleSubmit f = Inr p \<and> p_desiredMileage p = Some (Num n)))"
    using assms start [of 0 250]
    unfolding handleSubmit_cases presenceChecksPass_def passesRangeTest_def by auto
  from a b c d integerIn_examples(1-8) show ?thesis by blast
qed

theorem range_checks_judge_leading_integer_witness:
  "presenceChecksPass (form_night\<lparr>fd_desiredChargeLevel := ''101''\<rparr>) \<and>
   integerNumeral ''101'' = Some 101 \<and>
   handleSubmit (form_night\<lparr>fd_desiredChargeLevel := ''101''\<rparr>) = Inl (OutOfRange F_desiredChargeLevel) \<and>
   handleSubmit (form_night\<lparr>fd_desiredChargeLevel := ''-1''\<rparr>) = Inl (OutOfRange F_desiredChargeLevel) \<and>
   (\<exists>p. handleSubmit (form_night\<lparr>fd_desiredChargeLevel := ''0''\<rparr>) = Inr p \<and>
        p_desiredChargeLevel p = Some (Num 0)) \<and>
   (\<exists>p. handleSubmit (form_night\<lparr>fd_desiredChargeLevel := ''100''\<rparr>) = Inr p \<and>
        p_desiredChargeLevel p = Some (Num 100)) \<and>
   integerNumeral ''12'' = Some 12 \<and> \<not> isDecimalDigit (CHR ''a'') \<and>
   (\<exists>p. handleSubmit (form_night\<lparr>fd_desiredChargeLevel := ''12abc''\<rparr>) = Inr p \<and>
        p_desiredChargeLevel p = Some (Num 12)) \<and>
   handleSubmit (form_night\<lparr>fd_desiredChargeLevel := ''101.5''\<rparr>) = Inl (OutOfRange F_desiredChargeLevel) \<and>
   handleSubmit (form_night\<lparr>fd_type := Mileage, fd_desiredMileage := ''251''\<rparr>) =
     Inl (OutOfRange F_desiredMileage) \<and>
   (\<exists>p. handleSubmit (form_night\<lparr>fd_type := Mileage, fd_desiredMileage := ''0''\<rparr>) = Inr p \<and>
        p_desiredMileage p = Some (Num 0)) \<and>
   (\<exists>p. handleSubmit (form_night\<lparr>fd_type := Mileage, fd_desiredMileage := ''250''\<rparr>) = Inr p \<and>
        p_desiredMileage p = Some (Num 250))"
proof -
  have p: "presenceChecksPass (form_night\<lparr>fd_desiredChargeLevel := s\<rparr>)"
          "presenceChecksPass (form_night\<lparr>fd_type := Mileage, fd_desiredMileage := s\<rparr>)" for s
    by (simp_all add: form_night_def presenceChecksPass_def trim_examples)
  have t: "fd_type (form_night\<lparr>fd_desiredChargeLevel := s\<rparr>) = Charge"
          "fd_desiredChargeLevel (form_night\<lparr>fd_desiredChargeLevel := s\<rparr>) = s"
          "fd_type (form_night\<lparr>fd_type := Mileage, fd_desiredMileage := s\<rparr>) = Mileage"
          "fd_desiredMileage (form_night\<lparr>fd_type := Mileage, fd_desiredMileage := s\<rparr>) = s" for s
    by (simp_all add: form_night_def)
  have e: "integerNumeral ''101.5'' = None \<and> integerNumeral ''12abc'' = None" by code_simp
  have i: "\<not> integerIn ''101'' 0 100" "integerIn ''12'' 0 100" "\<not> integerIn ''-1'' 0 100"
    by (simp_all add: integerIn_examples)
  show ?thesis
    using range_checks_judge_leading_integer [OF p(1), of "''101''" 101 "''101''" "CHR ''.''" "''5''"]
          range_checks_judge_leading_integer [OF p(1), of "''-1''" "- 1" "''12''" "CHR ''a''" "''bc''"]
          range_checks_judge_leading_integer [OF p(1), of "''0''" 0 "''12''" "CHR ''a''" "''bc''"]
          range_checks_judge_leading_integer [OF p(1), of "''100''" 100 "''12''" "CHR ''a''" "''bc''"]
          range_checks_judge_leading_integer [OF p(1), of "''12abc''" 12 "''12''" "CHR ''a''" "''bc''"]
          range_checks_judge_leading_integer [OF p(1), of "''101.5''" 101 "''101''" "CHR ''.''" "''5''"]
          range_checks_judge_leading_integer [OF p(2), of "''251''" 251 "''12''" "CHR ''a''" "''bc''"]
          range_checks_judge_leading_integer [OF p(2), of "''0''" 0 "''12''" "CHR ''a''" "''bc''"]
          range_checks_judge_leading_integer [OF p(2), of "''250''" 250 "''12''" "CHR ''a''" "''bc''"]
          p(1) [of "''101''"]
    by (simp add: t e i integerNumeral_examples integerIn_examples isDecimalDigit_examples)
qed

text \<open>
  C5, as the claim states it, fails: the fractional input 2.5 is not rejected. The charge
  form and the mileage form with that input pass every check and submit the value 2.
\<close>

theorem fractional_input_counterexample:
  "handleSubmit (form_night\<lparr>fd_desiredChargeLevel := ''2.5''\<rparr>) =
     Inr \<lparr>p_id = None, p_userId = None, p_type = Some Charge, p_name = Some ''Night'',
          p_days = Some (JSON_stringify [''Monday'', ''Wednesday'']),
          p_startTime = None, p_endTime = None, p_readyByTime = Some ''07:00'',
          p_desiredChargeLevel = Some (Num 2), p_desiredMileage = None,
          p_isActive = Some True, p_createdAt = None\<rparr> \<and>
   handleSubmit (form_night\<lparr>fd_type := Mileage, fd_desiredMileage := ''2.5''\<rparr>) =
     Inr \<lparr>p_id = None, p_userId = None, p_type = Some Mileage, p_name = Some ''Night'',
          p_days = Some (JSON_stringify [''Monday'', ''Wednesday'']),
          p_startTime = None, p_endTime = None, p_readyByTime = Some ''07:00'',
          p_desiredChargeLevel = None, p_desiredMileage = Some (Num 2),
          p_isActive = Some True, p_createdAt = None\<rparr>"
  by (simp add: handleSubmit_cases form_night_def trim_examples passesRangeTest_def parseInt_examples)

text \<open>
  C5, amended. With the checks before it passed, an input made of decimal digits, a
  point and anything after it is judged by the integer before the point: it is
  submitted with that integer when the integer is at most 100 (250 for a mileage), and
  rejected with the range alert otherwise. An input from which \<open>parseInt\<close> reads no
  number at all (NaN) is rejected with the range alert.
\<close>

theorem fractional_input_read_up_to_the_point:
  assumes "presenceChecksPass f"
  shows
  "(fd_type f = Charge \<and> ds \<noteq> [] \<and> (\<forall>c\<in>set ds. isRadixDigit 10 c) \<and>
      fd_desiredChargeLevel f = ds @ CHR ''.'' # rest \<longrightarrow>
        (if radixValue 10 ds \<le> 100
         then \<exists>p. handleSubmit f = Inr p \<and> p_desiredChargeLevel p = Some (Num (int (radixValue 10 ds)))
         else handleSubmit f = Inl (OutOfRange F_desiredChargeLevel))) \<and>
   (fd_type f = Mileage \<and> ds \<noteq> [] \<and> (\<forall>c\<in>set ds. isRadixDigit 10 c) \<and>
      fd_desiredMileage f = ds @ CHR ''.'' # rest \<longrightarrow>
        (if radixValue 10 ds \<le> 250
         then \<exists>p. handleSubmit f = Inr p \<and> p_desiredMileage p = Some (Num (int (radixValue 10 ds)))
         else handleSubmit f = Inl (OutOfRange F_desiredMileage))) \<and>
   (fd_type f = Charge \<and> parseInt (fd_desiredChargeLevel f) = NaN \<longrightarrow>
        handleSubmit f = Inl (OutOfRange F_desiredChargeLevel)) \<and>
   (fd_type f = Mileage \<and> parseInt (fd_desiredMileage f) = NaN \<longrightarrow>
        handleSubmit f = Inl (OutOfRange F_desiredMileage))"
proof -
  have a: "fd_type f = Charge \<and> ds \<noteq> [] \<and> (\<forall>c\<in>set ds. isRadixDigit 10 c) \<and>
      fd_desiredChargeLevel f = ds @ CHR ''.'' # rest \<longrightarrow>
        (if radixValue 10 ds \<le> 100
         then \<exists>p. handleSubmit f = Inr p \<and> p_desiredChargeLevel p = Some (Num (int (radixValue 10 ds)))
         else handleSubmit f = Inl (OutOfRange F_desiredChargeLevel))"
    using assms parseInt_fraction [of ds rest]
    unfolding handleSubmit_cases presenceChecksPass_def passesRangeTest_def by auto
  have b: "fd_type f = Mileage \<and> ds \<noteq> [] \<and> (\<forall>c\<in>set ds. isRadixDigit 10 c) \<and>
      fd_desiredMileage f = ds @ CHR ''.'' # rest \<longrightarrow>
        (if radixValue 10 ds \<le> 250
         then \<exists>p. handleSubmit f = Inr p \<and> p_desiredMileage p = Some (Num (int (radixValue 10 ds)))
         else handleSubmit f = Inl (OutOfRange F_desiredMileage))"
    using assms parseInt_fraction [of ds rest]
    unfolding handleSubmit_cases presenceChecksPass_def passesRangeTest_def by auto
  have c: "fd_type f = Charge \<and> parseInt (fd_desiredChargeLevel f) = NaN \<longrightarrow>
        handleSubmit f = Inl (OutOfRange F_desiredChargeLevel)"
    using assms unfolding handleSubmit_cases presenceChecksPass_def passesRangeTest_def by auto
  have d: "fd_type f = Mileage \<and> parseInt (fd_desiredMileage f) = NaN \<longrightarrow>
        handleSubmit f = Inl (OutOfRange F_desiredMileage)"
    using assms unfolding handleSubmit_cases presenceChecksPass_def passesRangeTest_def by auto
  from a b c d show ?thesis by blast
qed

theorem fractional_input_read_up_to_the_point_witness:
  "presenceChecksPass (form_night\<lparr>fd_desiredChargeLevel := ''2.5''\<rparr>) \<and>
   (\<exists>p. handleSubmit (form_night\<lparr>fd_desiredChargeLevel := ''2.5''\<rparr>) = Inr p \<and>
        p_desiredChargeLevel p = Some (Num 2)) \<and>
   presenceChecksPass (form_night\<lparr>fd_desiredChargeLevel := ''101.5''\<rparr>) \<and>
   handleSubmit (form_night\<lparr>fd_desiredChargeLevel := ''101.5''\<rparr>) =
     Inl (OutOfRange F_desiredChargeLevel) \<and>
   (\<exists>p. handleSubmit (form_night\<lparr>fd_type := Mileage, fd_desiredMileage := ''101.5''\<rparr>) = Inr p \<and>
        p_desiredMileage p = Some (Num 101)) \<and>
   parseInt (fd_desiredChargeLevel (form_night\<lparr>fd_desiredChargeLevel := ''abc''\<rparr>)) = NaN \<and>
   handleSubmit (form_night\<lparr>fd_desiredChargeLevel := ''abc''\<rparr>) =
     Inl (OutOfRange F_desiredChargeLevel)"
proof -
  have p: "presenceChecksPass (form_night\<lparr>fd_desiredChargeLevel := s\<rparr>)"
          "presenceChecksPass (form_night\<lparr>fd_type := Mileage, fd_desiredMileage := s\<rparr>)" for s
    by (simp_all add: form_night_def presenceChecksPass_def trim_examples)
  show ?thesis
    using fractional_input_read_up_to_the_point [OF p(1), of "''2.5''" "''2''" "''5''"]
          fractional_input_read_up_to_the_point [OF p(1), of "''101.5''" "''101''" "''5''"]
          fractional_input_read_up_to_the_point [OF p(2), of "''101.5''" "''101''" "''5''"]
          fractional_input_read_up_to_the_point [OF p(1), of "''abc''" "''2''" "''5''"]
          p
    by (simp add: form_night_def radixValue_examples isRadixDigit_examples parseInt_examples)
qed

text \<open>
  C6. The form applies its checks in a fixed order and reports the first that fails:
  the trimmed name, the days, the time fields of the type, the charge level of a charge
  schedule, the mileage of a mileage schedule. Each line below gives a check together
  with the checks before it having passed; with all of them passed the payload is
  submitted.
\<close>

theorem handleSubmit_first_failure_wins:
  "(trim (fd_name f) = [] \<longrightarrow> handleSubmit f = Inl (MissingField F_name)) \<and>
   (trim (fd_name f) \<noteq> [] \<and> fd_days f = [] \<longrightarrow> handleSubmit f = Inl (MissingField F_days)) \<and>
   (trim (fd_name f) \<noteq> [] \<and> fd_days f \<noteq> [] \<and> fd_type f = Time \<and>
      (fd_startTime f = [] \<or> fd_endTime f = []) \<longrightarrow>
        handleSubmit f = Inl (MissingField F_startTime_endTime)) \<and>
   (trim (fd_name f) \<noteq> [] \<and> fd_days f \<noteq> [] \<and> fd_type f \<noteq> Time \<and> fd_readyByTime f = [] \<longrightarrow>
        handleSubmit f = Inl (MissingField F_readyByTime)) \<and>
   (presenceChecksPass f \<and> fd_type f = Charge \<and> \<not> passesRangeTest (fd_desiredChargeLevel f) 0 100 \<longrightarrow>
        handleSubmit f = Inl (OutOfRange F_desiredChargeLevel)) \<and>
   (presenceChecksPass f \<and> fd_type f = Mileage \<and> \<not> passesRangeTest (fd_desiredMileage f) 0 250 \<longrightarrow>
        handleSubmit f = Inl (OutOfRange F_desiredMileage)) \<and>
   (presenceChecksPass f \<and>
      (fd_type f = Charge \<longrightarrow> passesRangeTest (fd_desiredChargeLevel f) 0 100) \<and>
      (fd_type f = Mileage \<longrightarrow> passesRangeTest (fd_desiredMileage f) 0 250) \<longrightarrow>
        (\<exists>p. handleSubmit f = Inr p))"
  unfolding handleSubmit_cases presenceChecksPass_def by auto

theorem handleSubmit_first_failure_wins_witness:
  "trim (fd_name (form_night\<lparr>fd_name := ''  '', fd_days := []\<rparr>)) = [] \<and>
   fd_days (form_night\<lparr>fd_name := ''  '', fd_days := []\<rparr>) = [] \<and>
   handleSubmit (form_night\<lparr>fd_name := ''  '', fd_days := []\<rparr>) = Inl (MissingField F_name) \<and>
   trim (fd_name (form_night\<lparr>fd_days := []\<rparr>)) \<noteq> [] \<and>
   handleSubmit (form_night\<lparr>fd_days := []\<rparr>) = Inl (MissingField F_days) \<and>
   handleSubmit (form_night\<lparr>fd_readyByTime := [], fd_desiredChargeLevel := ''101''\<rparr>) =
     Inl (MissingField F_readyByTime) \<and>
   handleSubmit (form_night\<lparr>fd_type := Time, fd_startTime := ''06:00''\<rparr>) =
     Inl (MissingField F_startTime_endTime) \<and>
   presenceChecksPass (form_night\<lparr>fd_desiredChargeLevel := ''101''\<rparr>) \<and>
   handleSubmit (form_night\<lparr>fd_desiredChargeLevel := ''101''\<rparr>) =
     Inl (OutOfRange F_desiredChargeLevel) \<and>
   handleSubmit (form_night\<lparr>fd_type := Mileage\<rparr>) = Inl (OutOfRange F_desiredMileage) \<and>
   presenceChecksPass form_night \<and>
   (\<exists>p. handleSubmit form_night = Inr p)"
  using handleSubmit_first_failure_wins [of "form_night\<lparr>fd_name := ''  '', fd_days := []\<rparr>"]
        handleSubmit_first_failure_wins [of "form_night\<lparr>fd_days := []\<rparr>"]
        handleSubmit_first_failure_wins [of "form_night\<lparr>fd_readyByTime := [], fd_desiredChargeLevel := ''101''\<rparr>"]
        handleSubmit_first_failure_wins [of "form_night\<lparr>fd_type := Time, fd_startTime := ''06:00''\<rparr>"]
        handleSubmit_first_failure_wins [of "form_night\<lparr>fd_desiredChargeLevel := ''101''\<rparr>"]
        handleSubmit_first_failure_wins [of "form_night\<lparr>fd_type := Mileage\<rparr>"]
        handleSubmit_first_failure_wins [of form_night]
  by (simp add: form_night_def presenceChecksPass_def trim_examples passesRangeTest_examples)


section \<open>Properties of the store\<close>

lemma fold_max_ge_start: "s \<le> fold max ids (s::int)"
proof (induction ids arbitrary: s)
  case Nil
  show ?case by simp
next
  case (Cons i ids)
  have "s \<le> max i s" by simp
  also have "max i s \<le> fold max ids (max i s)" by (rule Cons.IH)
  finally show ?case by simp
qed

lemma fold_max_ge_member: "i \<in> set ids \<Longrightarrow> i \<le> fold max ids (s::int)"
proof (induction ids arbitrary: s)
  case Nil
  then show ?case by simp
next
  case (Cons j ids)
  show ?case
  proof (cases "i = j")
    case True
    have "j \<le> max j s" by simp
    also have "max j s \<le> fold max ids (max j s)" by (rule fold_max_ge_start)
    finally show ?thesis using True by simp
  next
    case False
    with Cons.prems have "i \<in> set ids" by simp
    from Cons.IH[OF this] show ?thesis by simp
  qed
qed

text \<open>An AUTOINCREMENT id is above the counter and above every id in the table.\<close>

lemma next_rowid_above_seq: "seq < next_rowid seq ids"
  using fold_max_ge_start [of seq ids] by (simp add: next_rowid_def)

lemma next_rowid_fresh: "next_rowid seq ids \<notin> set ids"
  using fold_max_ge_member [of "next_rowid seq ids" ids seq] by (auto simp: next_rowid_def)

lemma filter_no_key:
  assumes "k \<notin> set (map f xs)"
  shows "filter (\<lambda>x. f x = k) xs = []"
  using assms by (induction xs) auto

lemma select_new_schedule:
  assumes "s_id row \<notin> set (map s_id rows)"
  shows "filter (\<lambda>r. s_id r = s_id row) (rows @ [row]) = [row]"
  using filter_no_key [OF assms] by simp

text \<open>The insert of part_001, where no check can fail, followed by the read of the new row.\<close>

lemma createSchedule_below_quota:
  assumes "count_schedules (n_userId d) db < 10"
  shows "createSchedule d now db =
     (let row = \<lparr>s_id = next_rowid (schedules_seq db) (map s_id (schedules db)),
                 s_userId = n_userId d, s_type = n_type d, s_name = n_name d,
                 s_days = n_days d, s_startTime = or_null_string (n_startTime d),
                 s_endTime = or_null_string (n_endTime d),
                 s_readyByTime = or_null_string (n_readyByTime d),
                 s_desiredChargeLevel = or_null_number (n_desiredChargeLevel d),
                 s_desiredMileage = or_null_number (n_desiredMileage d),
                 s_isActive = (if n_isActive d then 1 else 0), s_createdAt = now\<rparr>
      in (Inr (Some row), db\<lparr>schedules := schedules db @ [row], schedules_seq := s_id row\<rparr>))"
proof -
  define row where "row = \<lparr>s_id = next_rowid (schedules_seq db) (map s_id (schedules db)),
                 s_userId = n_userId d, s_type = n_type d, s_name = n_name d,
                 s_days = n_days d, s_startTime = or_null_string (n_startTime d),
                 s_endTime = or_null_string (n_endTime d),
                 s_readyByTime = or_null_string (n_readyByTime d),
                 s_desiredChargeLevel = or_null_number (n_desiredChargeLevel d),
                 s_desiredMileage = or_null_number (n_desiredMileage d),
                 s_isActive = (if n_isActive d then 1 else 0), s_createdAt = now\<rparr>"
  have fresh: "s_id row \<notin> set (map s_id (schedules db))"
    unfolding row_def using next_rowid_fresh [of "schedules_seq db" "map s_id (schedules db)"] by simp
  have ins: "insert_schedule check_part001 (n_userId d) (n_type d) (n_name d) (n_days d)
               (or_null_string (n_startTime d)) (or_null_string (n_endTime d))
               (or_null_string (n_readyByTime d)) (or_null_number (n_desiredChargeLevel d))
               (or_null_number (n_desiredMileage d)) (if n_isActive d then 1 else 0) now db
             = (Inr (s_id row), db\<lparr>schedules := schedules db @ [row], schedules_seq := s_id row\<rparr>)"
    unfolding insert_schedule_def check_part001_def row_def by (simp add: Let_def)
  have sel: "select_schedules_by_id (s_id row)
               (db\<lparr>schedules := schedules db @ [row], schedules_seq := s_id row\<rparr>) = [row]"
    unfolding select_schedules_by_id_def using select_new_schedule [OF fresh] by simp
  have "createSchedule d now db =
          (Inr (Some row), db\<lparr>schedules := schedules db @ [row], schedules_seq := s_id row\<rparr>)"
    unfolding createSchedule_def using assms by (simp add: Let_def ins sel)
  then show ?thesis unfolding row_def by (simp add: Let_def)
qed

lemma length_select_by_userId:
  "length (select_schedules_by_userId u db) = length (filter (\<lambda>r. s_userId r = u) (schedules db))"
  by (simp add: select_schedules_by_userId_def)

lemma getScheduleCount_eq_count: "getScheduleCount u db = count_schedules u db"
  by (simp add: getScheduleCount_def getSchedulesByUserId_def count_schedules_def
        length_select_by_userId)

lemma mset_select_by_userId:
  "mset (select_schedules_by_userId u db) = mset (filter (\<lambda>r. s_userId r = u) (schedules db))"
  by (simp add: select_schedules_by_userId_def)

lemma sorted_select_by_userId:
  "sorted_wrt (\<lambda>a b. s_createdAt b \<le> s_createdAt a) (select_schedules_by_userId u db)"
proof -
  let ?xs = "sort_key s_createdAt (rev (filter (\<lambda>r. s_userId r = u) (schedules db)))"
  have "sorted (map s_createdAt ?xs)" by (rule sorted_sort_key)
  then have "sorted_wrt (\<lambda>a b. s_createdAt a \<le> s_createdAt b) ?xs"
    by (simp add: sorted_map)
  then show ?thesis
    by (simp add: select_schedules_by_userId_def sorted_wrt_rev)
qed

lemma db_nine_count: "count_schedules 1 db_nine = 9"
  by (simp add: count_schedules_def db_nine_def morning_row_def)
lemma string_order_examples:
  "''2024-01-01'' \<le> ''2024-01-05''" "''2024-01-02'' \<le> ''2024-01-05''"
  "''2024-01-01'' \<le> ''2024-01-02''" "\<not> ''2024-01-05'' \<le> ''2024-01-02''"
  "\<not> ''2024-01-05'' \<le> ''2024-01-01''" "\<not> ''2024-01-02'' \<le> ''2024-01-01''"
  by code_simp+


lemma filter_opt_entry_keep: "(\<And>v. P (E v)) \<Longrightarrow> filter P (opt_entry E x) = opt_entry E x"
  by (cases x) simp_all

lemma filter_opt_entry_drop: "(\<And>v. \<not> P (E v)) \<Longrightarrow> filter P (opt_entry E x) = []"
  by (cases x) simp_all

text \<open>The update set without the filter: the entries of the eleven keys other than id.\<close>

lemma update_fields_unfold:
  "update_fields p =
     opt_entry E_userId (p_userId p) @
     opt_entry E_type (p_type p) @
     opt_entry E_name (p_name p) @
     opt_entry E_days (p_days p) @
     opt_entry E_startTime (p_startTime p) @
     opt_entry E_endTime (p_endTime p) @
     opt_entry E_readyByTime (p_readyByTime p) @
     opt_entry E_desiredChargeLevel (p_desiredChargeLevel p) @
     opt_entry E_desiredMileage (p_desiredMileage p) @
     opt_entry E_isActive (p_isActive p) @
     opt_entry E_createdAt (p_createdAt p)"
  by (simp add: update_fields_def entries_def filter_opt_entry_keep filter_opt_entry_drop)

lemma fold_opt_entry:
  "fold set_column (opt_entry E_userId b) r =
     r\<lparr>s_userId := (case b of None \<Rightarrow> s_userId r | Some v \<Rightarrow> v)\<rparr>"
  "fold set_column (opt_entry E_type c) r =
     r\<lparr>s_type := (case c of None \<Rightarrow> s_type r | Some v \<Rightarrow> v)\<rparr>"
  "fold set_column (opt_entry E_name s) r =
     r\<lparr>s_name := (case s of None \<Rightarrow> s_name r | Some v \<Rightarrow> v)\<rparr>"
  "fold set_column (opt_entry E_days s) r =
     r\<lparr>s_days := (case s of None \<Rightarrow> s_days r | Some v \<Rightarrow> v)\<rparr>"
  "fold set_column (opt_entry E_startTime s) r =
     r\<lparr>s_startTime := (case s of None \<Rightarrow> s_startTime r | Some v \<Rightarrow> Some v)\<rparr>"
  "fold set_column (opt_entry E_endTime s) r =
     r\<lparr>s_endTime := (case s of None \<Rightarrow> s_endTime r | Some v \<Rightarrow> Some v)\<rparr>"
  "fold set_column (opt_entry E_readyByTime s) r =
     r\<lparr>s_readyByTime := (case s of None \<Rightarrow> s_readyByTime r | Some v \<Rightarrow> Some v)\<rparr>"
  "fold set_column (opt_entry E_desiredChargeLevel n) r =
     r\<lparr>s_desiredChargeLevel := (case n of None \<Rightarrow> s_desiredChargeLevel r | Some v \<Rightarrow> bind_number v)\<rparr>"
  "fold set_column (opt_entry E_desiredMileage n) r =
     r\<lparr>s_desiredMileage := (case n of None \<Rightarrow> s_desiredMileage r | Some v \<Rightarrow> bind_number v)\<rparr>"
  "fold set_column (opt_entry E_isActive f) r =
     r\<lparr>s_isActive := (case f of None \<Rightarrow> s_isActive r | Some v \<Rightarrow> (if v then 1 else 0))\<rparr>"
  "fold set_column (opt_entry E_createdAt s) r =
     r\<lparr>s_createdAt := (case s of None \<Rightarrow> s_createdAt r | Some v \<Rightarrow> v)\<rparr>"
  by (simp_all split: option.split)

text \<open>The SET clause built from a payload does to a row what \<open>updated_row\<close> says.\<close>

lemma fold_update_fields: "fold set_column (update_fields p) r = updated_row p r"
  unfolding update_fields_unfold updated_row_def
  by (simp add: fold_opt_entry cong: option.case_cong)

lemma update_fields_empty_iff:
  "(update_fields p = []) =
     (p_userId p = None \<and> p_type p = None \<and> p_name p = None \<and> p_days p = None \<and>
      p_startTime p = None \<and> p_endTime p = None \<and> p_readyByTime p = None \<and>
      p_desiredChargeLevel p = None \<and> p_desiredMileage p = None \<and> p_isActive p = None \<and>
      p_createdAt p = None)"
proof -
  have e: "(opt_entry E x = []) = (x = None)" for E :: "'a \<Rightarrow> entry" and x
    by (cases x) simp_all
  show ?thesis unfolding update_fields_unfold by (simp add: e)
qed

lemma updated_row_no_fields: "update_fields p = [] \<Longrightarrow> updated_row p r = r"
  by (simp add: update_fields_empty_iff updated_row_def)

lemma updated_row_frame: "only_present_fields_changed p r (updated_row p r)"
  by (simp add: only_present_fields_changed_def updated_row_def)

lemma map_no_match:
  assumes "i \<notin> set (map s_id rows)"
  shows "map (\<lambda>r. if s_id r = i then g r else r) rows = rows"
    and "List.map_filter (\<lambda>r. if s_id r = i then h r else None) rows = []"
  using assms by (induction rows) (auto simp: List.map_filter_simps)

lemma update_schedules_no_row:
  assumes "i \<notin> set (map s_id (schedules db))"
  shows "update_schedules chk assignments i db = (Inr (), db)"
  unfolding update_schedules_def by (simp add: map_no_match [OF assms])

lemma update_schedules_part001:
  "update_schedules check_part001 assignments i db =
     (Inr (), db\<lparr>schedules := map (\<lambda>r. if s_id r = i then fold set_column assignments r else r)
                                   (schedules db)\<rparr>)"
proof -
  have "List.map_filter (\<lambda>r. if s_id r = i then check_part001 (fold set_column assignments r) else None) rows = []"
    for rows
    by (induction rows) (auto simp: List.map_filter_simps check_part001_def)
  then show ?thesis unfolding update_schedules_def by simp
qed

text \<open>With no field to set, the update of either version leaves the database as it is.\<close>

lemma map_updated_row_id:
  assumes "update_fields p = []"
  shows "map (\<lambda>r. if s_id r = i then updated_row p r else r) rows = rows"
  using updated_row_no_fields [OF assms] by (induction rows) auto

lemma updateSchedule_eq:
  "updateSchedule i p db =
     (Inr (), db\<lparr>schedules := map (\<lambda>r. if s_id r = i then updated_row p r else r) (schedules db)\<rparr>)"
proof (cases "update_fields p = []")
  case True
  then show ?thesis
    by (simp add: updateSchedule_def Let_def map_updated_row_id)
next
  case False
  then show ?thesis
    by (simp add: updateSchedule_def Let_def update_schedules_part001 fold_update_fields)
qed

lemma updateSchedule_part000_eq:
  "updateSchedule_part000 i p (Some db) =
     (Inr (), Some (db\<lparr>schedules := map (\<lambda>r. if s_id r = i then updated_row p r else r) (schedules db)\<rparr>))
   \<or> (\<exists>c. updateSchedule_part000 i p (Some db) = (Inl (ConstraintViolation c), Some db))"
proof (cases "update_fields p = []")
  case True
  then show ?thesis
    by (simp add: updateSchedule_part000_def Let_def map_updated_row_id)
next
  case False
  then show ?thesis
    by (auto simp: updateSchedule_part000_def Let_def update_schedules_def fold_update_fields
             split: list.splits)
qed

lemma only_present_fields_changed_refl: "only_present_fields_changed p r r"
  by (simp add: only_present_fields_changed_def)

lemma update_frame_refl: "update_frame i p db db"
  by (simp add: update_frame_def list_all2_same only_present_fields_changed_refl)

lemma update_frame_map:
  "update_frame i p db
     (db\<lparr>schedules := map (\<lambda>r. if s_id r = i then updated_row p r else r) (schedules db)\<rparr>)"
  by (simp add: update_frame_def list_all2_map2 list_all2_same updated_row_frame)

lemma example_ids:
  "42 \<notin> set (map s_id (schedules db_nine))"
  "map s_id (schedules db_ten) = [1, 2, 3, 4, 5, 6, 7, 8, 9, 10]"
  by (simp_all add: db_ten_def db_nine_def morning_row_def night_row_def)

lemma update_fields_charge_50: "update_fields charge_50 = [E_desiredChargeLevel (Num 50)]"
  by (simp add: update_fields_unfold charge_50_def no_fields_def)

lemma update_fields_no_fields: "update_fields no_fields = []"
  by (simp add: update_fields_unfold no_fields_def)

text \<open>
  The version of part_000 has no quota: with ten schedules stored for the user, its
  \<^verbatim>\<open>createSchedule\<close> inserts an eleventh.
\<close>

lemma createSchedule_part000_has_no_quota:
  "count_schedules 1 db_ten = 10 \<and>
   (case snd (createSchedule_part000 night ''2024-02-02'' (Some db_ten)) of
      None \<Rightarrow> 0 | Some db \<Rightarrow> count_schedules 1 db) = 11"
  by (simp add: createSchedule_part000_def insert_schedule_def check_part000_def Let_def
        count_schedules_def db_ten_def db_nine_def morning_row_def night_row_def night_def)

text \<open>
  For a well-formed argument whose charge level and mileage are not 0, the row read back
  holds the submitted values in the fields of its type and NULL in the others.
\<close>

lemma createSchedule_round_trip_nonzero:
  assumes "valid_payload d" and "count_schedules (n_userId d) db < 10"
    and "n_desiredChargeLevel d \<noteq> Some (Num 0)" and "n_desiredMileage d \<noteq> Some (Num 0)"
  shows "\<exists>row. fst (createSchedule d now db) = Inr (Some row) \<and>
           row \<in> set (getSchedulesByUserId (n_userId d) (snd (createSchedule d now db))) \<and>
           s_startTime row = n_startTime d \<and> s_endTime row = n_endTime d \<and>
           s_readyByTime row = n_readyByTime d \<and>
           s_desiredChargeLevel row = submitted_number (n_desiredChargeLevel d) \<and>
           s_desiredMileage row = submitted_number (n_desiredMileage d)"
proof -
  define row where "row = \<lparr>s_id = next_rowid (schedules_seq db) (map s_id (schedules db)),
                 s_userId = n_userId d, s_type = n_type d, s_name = n_name d,
                 s_days = n_days d, s_startTime = or_null_string (n_startTime d),
                 s_endTime = or_null_string (n_endTime d),
                 s_readyByTime = or_null_string (n_readyByTime d),
                 s_desiredChargeLevel = or_null_number (n_desiredChargeLevel d),
                 s_desiredMileage = or_null_number (n_desiredMileage d),
                 s_isActive = (if n_isActive d then 1 else 0), s_createdAt = now\<rparr>"
  have eq: "createSchedule d now db =
              (Inr (Some row), db\<lparr>schedules := schedules db @ [row], schedules_seq := s_id row\<rparr>)"
    using createSchedule_below_quota [OF assms(2), of now] unfolding row_def by (simp add: Let_def)
  have "row \<in># mset (getSchedulesByUserId (n_userId d) (snd (createSchedule d now db)))"
    unfolding getSchedulesByUserId_def mset_select_by_userId eq by (simp add: row_def)
  then have mem: "row \<in> set (getSchedulesByUserId (n_userId d) (snd (createSchedule d now db)))"
    by simp
  have str: "or_null_string x = x" if "present x \<or> x = None" for x
    using that by (cases x) auto
  have num: "or_null_number x = submitted_number x" if "within lo hi x \<or> x = None" "x \<noteq> Some (Num 0)"
    for x lo hi
    using that by (cases x rule: or_null_number.cases) auto
  have s: "or_null_string (n_startTime d) = n_startTime d"
          "or_null_string (n_endTime d) = n_endTime d"
          "or_null_string (n_readyByTime d) = n_readyByTime d"
    using assms(1) by (auto simp: valid_payload_def intro!: str split: schedule_type.splits)
  have n: "or_null_number (n_desiredChargeLevel d) = submitted_number (n_desiredChargeLevel d)"
          "or_null_number (n_desiredMileage d) = submitted_number (n_desiredMileage d)"
    using assms(1,3,4) num [of 0 100 "n_desiredChargeLevel d"] num [of 0 250 "n_desiredMileage d"]
    by (auto simp: valid_payload_def split: schedule_type.splits)
  from eq mem s n show ?thesis by (auto simp: row_def)
qed

lemma getUserByUsername_None_iff:
  "(getUserByUsername n db = None) = (n \<notin> set (map u_username (users db)))"
proof -
  have "(filter (\<lambda>u. u_username u = n) us = []) = (n \<notin> set (map u_username us))" for us
    by (induction us) auto
  moreover have "(item0 xs = None) = (xs = [])" for xs :: "User list"
    by (cases xs) simp_all
  ultimately show ?thesis
    by (auto simp: getUserByUsername_def select_users_by_username_def Let_def)
qed

lemma createUser_duplicate_email:
  assumes "n \<notin> set (map u_username (users db))" and "e \<in> set (map u_email (users db))"
  shows "createUser n e pw now db = (Inl (ConstraintViolation Unique_email), db)"
  using assms by (simp add: createUser_def insert_user_def)

text \<open>With a new username and a new email the user is stored and signed in.\<close>

lemma register_new_user:
  assumes "n \<notin> set (map u_username (users (a_db st)))"
    and "e \<notin> set (map u_email (users (a_db st)))"
  shows "fst (register n e pw now True st) = True \<and>
         n \<in> set (map u_username (users (a_db (snd (register n e pw now True st))))) \<and>
         length (users (a_db (snd (register n e pw now True st)))) = length (users (a_db st)) + 1"
proof -
  let ?i = "next_rowid (users_seq (a_db st)) (map u_id (users (a_db st)))"
  let ?u = "\<lparr>u_id = ?i, u_username = n, u_email = e, u_password = pw, u_createdAt = now\<rparr>"
  have "?i \<notin> set (map u_id (users (a_db st)))" by (rule next_rowid_fresh)
  then have "filter (\<lambda>u. u_id u = ?i) (users (a_db st)) = []"
    by (rule filter_no_key)
  then have "createUser n e pw now (a_db st) =
               (Inr (Some ?u), (a_db st)\<lparr>users := users (a_db st) @ [?u], users_seq := ?i\<rparr>)"
    using assms by (simp add: createUser_def insert_user_def select_users_by_id_def Let_def)
  moreover have "getUserByUsername n (a_db st) = None"
    using assms(1) by (simp add: getUserByUsername_None_iff)
  ultimately show ?thesis
    by (simp add: register_def Let_def)
qed

text \<open>
  C1. The round trip loses a submitted 0. A charge schedule with level 0 and a mileage
  schedule with mileage 0 are well-formed arguments; created in an empty database and
  read back by the user's id, each comes back with NULL in that column, because
  \<^verbatim>\<open>0 || null\<close> is null. Both versions of the service do so.
\<close>

theorem createSchedule_zero_read_back_null:
  "valid_payload (night\<lparr>n_desiredChargeLevel := Some (Num 0)\<rparr>) \<and>
   getSchedulesByUserId 1
       (snd (createSchedule (night\<lparr>n_desiredChargeLevel := Some (Num 0)\<rparr>) ''2024-02-01'' db_empty)) =
     [\<lparr>s_id = 1, s_userId = 1, s_type = Charge, s_name = ''Night'',
       s_days = JSON_stringify [''Monday'', ''Wednesday''],
       s_startTime = None, s_endTime = None, s_readyByTime = Some ''07:00'',
       s_desiredChargeLevel = None, s_desiredMileage = None, s_isActive = 1,
       s_createdAt = ''2024-02-01''\<rparr>] \<and>
   valid_payload (night\<lparr>n_type := Mileage, n_desiredChargeLevel := None,
                         n_desiredMileage := Some (Num 0)\<rparr>) \<and>
   getSchedulesByUserId 1
       (snd (createSchedule (night\<lparr>n_type := Mileage, n_desiredChargeLevel := None,
                                    n_desiredMileage := Some (Num 0)\<rparr>) ''2024-02-01'' db_empty)) =
     [\<lparr>s_id = 1, s_userId = 1, s_type = Mileage, s_name = ''Night'',
       s_days = JSON_stringify [''Monday'', ''Wednesday''],
       s_startTime = None, s_endTime = None, s_readyByTime = Some ''07:00'',
       s_desiredChargeLevel = None, s_desiredMileage = None, s_isActive = 1,
       s_createdAt = ''2024-02-01''\<rparr>] \<and>
   (case snd (createSchedule_part000 (night\<lparr>n_desiredChargeLevel := Some (Num 0)\<rparr>)
                ''2024-02-01'' (Some db_empty)) of
      None \<Rightarrow> [] | Some db \<Rightarrow> map s_desiredChargeLevel (schedules db)) = [None]"
proof -
  have v: "valid_payload (night\<lparr>n_desiredChargeLevel := Some (Num 0)\<rparr>)"
          "valid_payload (night\<lparr>n_type := Mileage, n_desiredChargeLevel := None,
                         n_desiredMileage := Some (Num 0)\<rparr>)"
    by (simp_all add: valid_payload_def night_def trim_examples)
  have c: "count_schedules (n_userId (night\<lparr>n_desiredChargeLevel := Some (Num 0)\<rparr>)) db_empty < 10"
          "count_schedules (n_userId (night\<lparr>n_type := Mileage, n_desiredChargeLevel := None,
                         n_desiredMileage := Some (Num 0)\<rparr>)) db_empty < 10"
    by (simp_all add: count_schedules_def db_empty_def)
  have n: "next_rowid 0 [] = 1" by (simp add: next_rowid_def)
  have a: "getSchedulesByUserId 1
       (snd (createSchedule (night\<lparr>n_desiredChargeLevel := Some (Num 0)\<rparr>) ''2024-02-01'' db_empty)) =
     [\<lparr>s_id = 1, s_userId = 1, s_type = Charge, s_name = ''Night'',
       s_days = JSON_stringify [''Monday'', ''Wednesday''],
       s_startTime = None, s_endTime = None, s_readyByTime = Some ''07:00'',
       s_desiredChargeLevel = None, s_desiredMileage = None, s_isActive = 1,
       s_createdAt = ''2024-02-01''\<rparr>]"
    unfolding createSchedule_below_quota [OF c(1)]
    by (simp add: Let_def getSchedulesByUserId_def select_schedules_by_userId_def
          db_empty_def night_def n)
  have b: "getSchedulesByUserId 1
       (snd (createSchedule (night\<lparr>n_type := Mileage, n_desiredChargeLevel := None,
                                    n_desiredMileage := Some (Num 0)\<rparr>) ''2024-02-01'' db_empty)) =
     [\<lparr>s_id = 1, s_userId = 1, s_type = Mileage, s_name = ''Night'',
       s_days = JSON_stringify [''Monday'', ''Wednesday''],
       s_startTime = None, s_endTime = None, s_readyByTime = Some ''07:00'',
       s_desiredChargeLevel = None, s_desiredMileage = None, s_isActive = 1,
       s_createdAt = ''2024-02-01''\<rparr>]"
    unfolding createSchedule_below_quota [OF c(2)]
    by (simp add: Let_def getSchedulesByUserId_def select_schedules_by_userId_def
          db_empty_def night_def n)
  have p: "(case snd (createSchedule_part000 (night\<lparr>n_desiredChargeLevel := Some (Num 0)\<rparr>)
                ''2024-02-01'' (Some db_empty)) of
      None \<Rightarrow> [] | Some db \<Rightarrow> map s_desiredChargeLevel (schedules db)) = [None]"
    by (simp add: createSchedule_part000_def insert_schedule_def check_part000_def Let_def
          db_empty_def night_def n)
  from v a b p show ?thesis by blast
qed

text \<open>
  C2. When the user already has ten schedules (or more), \<^verbatim>\<open>createSchedule\<close> of the
  service in use rejects with the quota error and the database is the one before the
  call, so the user's list and count are as before. With fewer than ten it resolves
  with the stored row: the row is appended, its id is above the counter and differs from
  every id in the table, its creation time is the clock's reading, it belongs to
  the user, and the user's count is one more.
\<close>

theorem createSchedule_quota:
  "(count_schedules (n_userId d) db \<ge> 10 \<longrightarrow>
      createSchedule d now db = (Inl QuotaExceeded, db) \<and>
      getSchedulesByUserId (n_userId d) (snd (createSchedule d now db)) =
        getSchedulesByUserId (n_userId d) db \<and>
      getScheduleCount (n_userId d) (snd (createSchedule d now db)) =
        getScheduleCount (n_userId d) db) \<and>
   (count_schedules (n_userId d) db < 10 \<longrightarrow>
      (\<exists>row. createSchedule d now db =
                (Inr (Some row), db\<lparr>schedules := schedules db @ [row], schedules_seq := s_id row\<rparr>) \<and>
             s_id row \<notin> set (map s_id (schedules db)) \<and>
             schedules_seq db < s_id row \<and>
             s_createdAt row = now \<and>
             s_userId row = n_userId d \<and> s_type row = n_type d \<and>
             s_name row = n_name d \<and> s_days row = n_days d \<and>
             row \<in> set (getSchedulesByUserId (n_userId d) (snd (createSchedule d now db))) \<and>
             getScheduleCount (n_userId d) (snd (createSchedule d now db)) =
               getScheduleCount (n_userId d) db + 1)) \<and>
   getScheduleCount (n_userId d) db = count_schedules (n_userId d) db"
proof -
  have full: "count_schedules (n_userId d) db \<ge> 10 \<longrightarrow>
      createSchedule d now db = (Inl QuotaExceeded, db) \<and>
      getSchedulesByUserId (n_userId d) (snd (createSchedule d now db)) =
        getSchedulesByUserId (n_userId d) db \<and>
      getScheduleCount (n_userId d) (snd (createSchedule d now db)) =
        getScheduleCount (n_userId d) db"
    by (simp add: createSchedule_def Let_def)
  have room: "\<exists>row. createSchedule d now db =
                (Inr (Some row), db\<lparr>schedules := schedules db @ [row], schedules_seq := s_id row\<rparr>) \<and>
             s_id row \<notin> set (map s_id (schedules db)) \<and>
             schedules_seq db < s_id row \<and>
             s_createdAt row = now \<and>
             s_userId row = n_userId d \<and> s_type row = n_type d \<and>
             s_name row = n_name d \<and> s_days row = n_days d \<and>
             row \<in> set (getSchedulesByUserId (n_userId d) (snd (createSchedule d now db))) \<and>
             getScheduleCount (n_userId d) (snd (createSchedule d now db)) =
               getScheduleCount (n_userId d) db + 1"
    if lt: "count_schedules (n_userId d) db < 10"
  proof -
    define row where "row = \<lparr>s_id = next_rowid (schedules_seq db) (map s_id (schedules db)),
                 s_userId = n_userId d, s_type = n_type d, s_name = n_name d,
                 s_days = n_days d, s_startTime = or_null_string (n_startTime d),
                 s_endTime = or_null_string (n_endTime d),
                 s_readyByTime = or_null_string (n_readyByTime d),
                 s_desiredChargeLevel = or_null_number (n_desiredChargeLevel d),
                 s_desiredMileage = or_null_number (n_desiredMileage d),
                 s_isActive = (if n_isActive d then 1 else 0), s_createdAt = now\<rparr>"
    have eq: "createSchedule d now db =
                (Inr (Some row), db\<lparr>schedules := schedules db @ [row], schedules_seq := s_id row\<rparr>)"
      using createSchedule_below_quota [OF lt, of now] unfolding row_def by (simp add: Let_def)
    have fresh: "s_id row \<notin> set (map s_id (schedules db))"
      unfolding row_def using next_rowid_fresh [of "schedules_seq db" "map s_id (schedules db)"] by simp
    have above: "schedules_seq db < s_id row"
      unfolding row_def using next_rowid_above_seq [of "schedules_seq db" "map s_id (schedules db)"] by simp
    have flds: "s_createdAt row = now" "s_userId row = n_userId d" "s_type row = n_type d"
      "s_name row = n_name d" "s_days row = n_days d"
      by (simp_all add: row_def)
    have "row \<in># mset (getSchedulesByUserId (n_userId d) (snd (createSchedule d now db)))"
      unfolding getSchedulesByUserId_def mset_select_by_userId eq using flds(2) by simp
    then have mem: "row \<in> set (getSchedulesByUserId (n_userId d) (snd (createSchedule d now db)))"
      by simp
    have cnt: "getScheduleCount (n_userId d) (snd (createSchedule d now db)) =
               getScheduleCount (n_userId d) db + 1"
      unfolding getScheduleCount_eq_count eq using flds(2) by (simp add: count_schedules_def)
    from eq fresh above flds mem cnt show ?thesis by blast
  qed
  from full room getScheduleCount_eq_count [of "n_userId d" db] show ?thesis by blast
qed

theorem createSchedule_quota_witness:
  "count_schedules (n_userId night) db_nine < 10 \<and>
   fst (createSchedule night ''2024-02-01T07:00:00.000Z'' db_nine) \<noteq> Inl QuotaExceeded \<and>
   getScheduleCount 1 (snd (createSchedule night ''2024-02-01T07:00:00.000Z'' db_nine)) = 10 \<and>
   count_schedules (n_userId night) (snd (createSchedule night ''2024-02-01T07:00:00.000Z'' db_nine)) \<ge> 10 \<and>
   createSchedule night ''2024-02-02T07:00:00.000Z''
       (snd (createSchedule night ''2024-02-01T07:00:00.000Z'' db_nine)) =
     (Inl QuotaExceeded, snd (createSchedule night ''2024-02-01T07:00:00.000Z'' db_nine))"
proof -
  let ?t = "''2024-02-01T07:00:00.000Z''"
  let ?db = "snd (createSchedule night ?t db_nine)"
  have u: "n_userId night = 1" by (simp add: night_def)
  have nine: "count_schedules (n_userId night) db_nine < 10"
    using db_nine_count by (simp add: u)
  have first: "fst (createSchedule night ?t db_nine) \<noteq> Inl QuotaExceeded"
              "getScheduleCount 1 ?db = 10"
              "count_schedules (n_userId night) ?db \<ge> 10"
    using createSchedule_quota [of night db_nine ?t] createSchedule_quota [of night ?db ?t]
          nine db_nine_count
    by (auto simp: u)
  have second: "createSchedule night ''2024-02-02T07:00:00.000Z'' ?db = (Inl QuotaExceeded, ?db)"
    using createSchedule_quota [of night ?db "''2024-02-02T07:00:00.000Z''"] first(3) by simp
  from nine first second show ?thesis by simp
qed

text \<open>
  C3, as the claim states it, fails: no row has the id 42, the payload sets one field,
  and the update resolves, in both versions of the service, leaving the database as it
  was.
\<close>

theorem updateSchedule_missing_id_counterexample:
  "select_schedules_by_id 42 db_nine = [] \<and>
   update_fields charge_50 = [E_desiredChargeLevel (Num 50)] \<and>
   updateSchedule 42 charge_50 db_nine = (Inr (), db_nine) \<and>
   updateSchedule_part000 42 charge_50 (Some db_nine) = (Inr (), Some db_nine)"
proof -
  have "select_schedules_by_id 42 db_nine = []"
    by (simp add: select_schedules_by_id_def db_nine_def morning_row_def)
  then show ?thesis
    by (simp add: updateSchedule_def updateSchedule_part000_def Let_def update_fields_charge_50
          update_schedules_no_row [OF example_ids(1)])
qed

text \<open>
  C3, amended. An update of an id that no row has succeeds, whatever the payload, and
  changes nothing: the service has no failure for a missing row.
\<close>

theorem updateSchedule_missing_id_is_no_op:
  assumes "i \<notin> set (map s_id (schedules db))"
  shows "updateSchedule i p db = (Inr (), db) \<and>
         updateSchedule_part000 i p (Some db) = (Inr (), Some db)"
  by (simp add: updateSchedule_def updateSchedule_part000_def Let_def
        update_schedules_no_row [OF assms])

theorem updateSchedule_missing_id_is_no_op_witness:
  "42 \<notin> set (map s_id (schedules db_nine)) \<and>
   updateSchedule 42 (charge_50\<lparr>p_name := Some ''Late''\<rparr>) db_nine = (Inr (), db_nine) \<and>
   updateSchedule_part000 42 (charge_50\<lparr>p_name := Some ''Late''\<rparr>) (Some db_nine) =
     (Inr (), Some db_nine)"
  using updateSchedule_missing_id_is_no_op [OF example_ids(1), of "charge_50\<lparr>p_name := Some ''Late''\<rparr>"]
        example_ids(1)
  by simp

text \<open>
  C7. \<^verbatim>\<open>updateSchedule\<close> resolves and turns each row with the id into
  \<open>updated_row\<close> of it, which differs from the row only in fields present in the
  payload and never in the id; every other row, the users and the counters stay. With
  no field to set the database is the one before the call. The version of part_000
  either does the same or, when the new row breaks a CHECK of its table, rejects and
  changes nothing.
\<close>

theorem updateSchedule_changes_only_present_fields:
  "updateSchedule i p db =
     (Inr (), db\<lparr>schedules := map (\<lambda>r. if s_id r = i then updated_row p r else r) (schedules db)\<rparr>) \<and>
   only_present_fields_changed p r (updated_row p r) \<and>
   update_frame i p db (snd (updateSchedule i p db)) \<and>
   (update_fields p = [] \<longrightarrow> updateSchedule i p db = (Inr (), db)) \<and>
   (updateSchedule_part000 i p (Some db) =
      (Inr (), Some (db\<lparr>schedules := map (\<lambda>r. if s_id r = i then updated_row p r else r) (schedules db)\<rparr>))
    \<or> (\<exists>c. updateSchedule_part000 i p (Some db) = (Inl (ConstraintViolation c), Some db))) \<and>
   (\<exists>db'. snd (updateSchedule_part000 i p (Some db)) = Some db' \<and> update_frame i p db db') \<and>
   (update_fields p = [] \<longrightarrow> updateSchedule_part000 i p (Some db) = (Inr (), Some db))"
proof -
  have a: "updateSchedule i p db =
     (Inr (), db\<lparr>schedules := map (\<lambda>r. if s_id r = i then updated_row p r else r) (schedules db)\<rparr>)"
    by (rule updateSchedule_eq)
  have b: "update_frame i p db (snd (updateSchedule i p db))"
    unfolding a using update_frame_map [of i p db] by simp
  have c: "update_fields p = [] \<longrightarrow> updateSchedule i p db = (Inr (), db)"
    by (simp add: updateSchedule_def)
  have d: "updateSchedule_part000 i p (Some db) =
      (Inr (), Some (db\<lparr>schedules := map (\<lambda>r. if s_id r = i then updated_row p r else r) (schedules db)\<rparr>))
    \<or> (\<exists>c. updateSchedule_part000 i p (Some db) = (Inl (ConstraintViolation c), Some db))"
    by (rule updateSchedule_part000_eq)
  have e: "\<exists>db'. snd (updateSchedule_part000 i p (Some db)) = Some db' \<and> update_frame i p db db'"
    using d update_frame_map [of i p db] update_frame_refl [of i p db] by auto
  have f: "update_fields p = [] \<longrightarrow> updateSchedule_part000 i p (Some db) = (Inr (), Some db)"
    by (simp add: updateSchedule_part000_def)
  from a b c d e f updated_row_frame [of p r] show ?thesis by blast
qed

theorem updateSchedule_changes_only_present_fields_witness:
  "updateSchedule 10 charge_50 db_ten =
     (Inr (), db_ten\<lparr>schedules := schedules db_nine @ [night_row\<lparr>s_desiredChargeLevel := Some 50\<rparr>]\<rparr>) \<and>
   update_fields no_fields = [] \<and>
   updateSchedule 10 no_fields db_ten = (Inr (), db_ten) \<and>
   updateSchedule_part000 10 no_fields (Some db_ten) = (Inr (), Some db_ten)"
proof -
  have r: "updated_row charge_50 night_row = night_row\<lparr>s_desiredChargeLevel := Some 50\<rparr>"
    by (simp add: updated_row_def charge_50_def no_fields_def night_row_def)
  have m: "map (\<lambda>r. if s_id r = 10 then updated_row charge_50 r else r) (schedules db_ten) =
           schedules db_nine @ [night_row\<lparr>s_desiredChargeLevel := Some 50\<rparr>]"
    unfolding db_ten_def by (simp add: r) (simp add: db_nine_def morning_row_def night_row_def)
  note t1 = updateSchedule_changes_only_present_fields [of 10 charge_50 db_ten night_row]
  note t2 = updateSchedule_changes_only_present_fields [of 10 no_fields db_ten night_row]
  have u1: "updateSchedule 10 charge_50 db_ten =
     (Inr (), db_ten\<lparr>schedules := schedules db_nine @ [night_row\<lparr>s_desiredChargeLevel := Some 50\<rparr>]\<rparr>)"
    using t1 by (simp add: m)
  have u2: "updateSchedule 10 no_fields db_ten = (Inr (), db_ten)"
    using t2 update_fields_no_fields by blast
  have u3: "updateSchedule_part000 10 no_fields (Some db_ten) = (Inr (), Some db_ten)"
    using t2 update_fields_no_fields by blast
  from u1 u2 u3 update_fields_no_fields show ?thesis by blast
qed

text \<open>
  C8. \<^verbatim>\<open>deleteSchedule\<close> always resolves. With no row of that id the database is
  left as it is, and a second deletion of the same id gives the same database as the
  first. The version of part_000 does the same on an open database.
\<close>

theorem deleteSchedule_idempotent:
  "fst (deleteSchedule i db) = Inr () \<and>
   (i \<notin> set (map s_id (schedules db)) \<longrightarrow> deleteSchedule i db = (Inr (), db)) \<and>
   deleteSchedule i (snd (deleteSchedule i db)) = deleteSchedule i db \<and>
   i \<notin> set (map s_id (schedules (snd (deleteSchedule i db)))) \<and>
   fst (deleteSchedule_part000 i (Some db)) = Inr () \<and>
   (i \<notin> set (map s_id (schedules db)) \<longrightarrow> deleteSchedule_part000 i (Some db) = (Inr (), Some db)) \<and>
   deleteSchedule_part000 i (snd (deleteSchedule_part000 i (Some db))) =
     deleteSchedule_part000 i (Some db)"
proof -
  have keep: "i \<notin> set (map s_id (schedules db)) \<Longrightarrow> delete_schedules i db = db"
  proof -
    assume "i \<notin> set (map s_id (schedules db))"
    then have "filter (\<lambda>r. s_id r \<noteq> i) (schedules db) = schedules db"
      by (induction "schedules db") (auto simp: filter_id_conv)
    then show ?thesis by (simp add: delete_schedules_def)
  qed
  have twice: "delete_schedules i (delete_schedules i db) = delete_schedules i db"
    by (simp add: delete_schedules_def)
  have gone: "i \<notin> set (map s_id (schedules (delete_schedules i db)))"
    by (auto simp: delete_schedules_def)
  from keep twice gone show ?thesis
    by (simp add: deleteSchedule_def deleteSchedule_part000_def)
qed

theorem deleteSchedule_idempotent_witness:
  "42 \<notin> set (map s_id (schedules db_nine)) \<and>
   deleteSchedule 42 db_nine = (Inr (), db_nine) \<and>
   deleteSchedule 3 (snd (deleteSchedule 3 db_nine)) = deleteSchedule 3 db_nine \<and>
   length (schedules (snd (deleteSchedule 3 db_nine))) = 8"
  using deleteSchedule_idempotent [of 42 db_nine] deleteSchedule_idempotent [of 3 db_nine]
  by (simp add: db_nine_def morning_row_def deleteSchedule_def delete_schedules_def)

text \<open>
  C9. \<^verbatim>\<open>getSchedulesByUserId\<close> returns the stored schedules of that user, each as
  often as it is stored and no other, in descending order of \<open>createdAt\<close>. The version
  of part_000 returns the same list on an open database.
\<close>

theorem getSchedulesByUserId_filtered_and_sorted:
  "mset (getSchedulesByUserId u db) = mset (filter (\<lambda>r. s_userId r = u) (schedules db)) \<and>
   sorted_wrt (\<lambda>a b. s_createdAt b \<le> s_createdAt a) (getSchedulesByUserId u db) \<and>
   set (getSchedulesByUserId u db) = {r \<in> set (schedules db). s_userId r = u} \<and>
   getSchedulesByUserId_part000 u (Some db) = Inr (getSchedulesByUserId u db)"
proof -
  have m: "mset (getSchedulesByUserId u db) = mset (filter (\<lambda>r. s_userId r = u) (schedules db))"
    by (simp add: getSchedulesByUserId_def mset_select_by_userId)
  have s: "sorted_wrt (\<lambda>a b. s_createdAt b \<le> s_createdAt a) (getSchedulesByUserId u db)"
    by (simp add: getSchedulesByUserId_def sorted_select_by_userId)
  have "set (getSchedulesByUserId u db) = set (filter (\<lambda>r. s_userId r = u) (schedules db))"
    using m by (rule mset_eq_setD)
  then have e: "set (getSchedulesByUserId u db) = {r \<in> set (schedules db). s_userId r = u}"
    by simp
  have p: "getSchedulesByUserId_part000 u (Some db) = Inr (getSchedulesByUserId u db)"
    by (simp add: getSchedulesByUserId_part000_def getSchedulesByUserId_def)
  from m s e p show ?thesis by blast
qed

theorem getSchedulesByUserId_filtered_and_sorted_witness:
  "getSchedulesByUserId 1 db_two_users =
     [morning_row 3 ''05'', morning_row 4 ''02'', morning_row 1 ''01''] \<and>
   mset (getSchedulesByUserId 1 db_two_users) =
     mset [morning_row 1 ''01'', morning_row 3 ''05'', morning_row 4 ''02'']"
proof -
  have "getSchedulesByUserId 1 db_two_users =
     [morning_row 3 ''05'', morning_row 4 ''02'', morning_row 1 ''01'']"
    by (simp add: getSchedulesByUserId_def select_schedules_by_userId_def db_two_users_def
          morning_row_def string_order_examples)
  moreover have "filter (\<lambda>r. s_userId r = 1) (schedules db_two_users) =
     [morning_row 1 ''01'', morning_row 3 ''05'', morning_row 4 ''02'']"
    by (simp add: db_two_users_def morning_row_def)
  ultimately show ?thesis
    using getSchedulesByUserId_filtered_and_sorted [of 1 db_two_users] by simp
qed

text \<open>
  C10. When a user with the username exists, \<^verbatim>\<open>register\<close> returns false after the
  one call of \<^verbatim>\<open>getUserByUsername\<close>: the database, the signed-in user and the stored
  session are as before and \<^verbatim>\<open>createUser\<close> is not called. When the username is new
  and the email exists, \<^verbatim>\<open>register\<close> calls \<^verbatim>\<open>createUser\<close>, whose insert breaks the
  UNIQUE constraint on the email; \<^verbatim>\<open>register\<close> returns false and the database is as
  before.
\<close>

theorem register_duplicate:
  "(username \<in> set (map u_username (users (a_db st))) \<longrightarrow>
      register username email password now setItemOk st =
        (False, st\<lparr>a_calls := a_calls st @ [Call_getUserByUsername username]\<rparr>)) \<and>
   (username \<notin> set (map u_username (users (a_db st))) \<and>
    email \<in> set (map u_email (users (a_db st))) \<longrightarrow>
      register username email password now setItemOk st =
        (False, st\<lparr>a_calls := a_calls st @
                     [Call_getUserByUsername username, Call_createUser username email password]\<rparr>) \<and>
      createUser username email password now (a_db st) =
        (Inl (ConstraintViolation Unique_email), a_db st))"
proof -
  have a: "register username email password now setItemOk st =
        (False, st\<lparr>a_calls := a_calls st @ [Call_getUserByUsername username]\<rparr>)"
    if "username \<in> set (map u_username (users (a_db st)))"
  proof -
    from that have "getUserByUsername username (a_db st) \<noteq> None"
      by (simp add: getUserByUsername_None_iff)
    then obtain u where "getUserByUsername username (a_db st) = Some u" by blast
    then show ?thesis by (simp add: register_def Let_def)
  qed
  have b: "register username email password now setItemOk st =
        (False, st\<lparr>a_calls := a_calls st @
                     [Call_getUserByUsername username, Call_createUser username email password]\<rparr>) \<and>
      createUser username email password now (a_db st) =
        (Inl (ConstraintViolation Unique_email), a_db st)"
    if n: "username \<notin> set (map u_username (users (a_db st)))"
      and e: "email \<in> set (map u_email (users (a_db st)))"
  proof -
    have g: "getUserByUsername username (a_db st) = None"
      using n by (simp add: getUserByUsername_None_iff)
    have c: "createUser username email password now (a_db st) =
        (Inl (ConstraintViolation Unique_email), a_db st)"
      by (rule createUser_duplicate_email [OF n e])
    show ?thesis by (simp add: register_def Let_def g c)
  qed
  from a b show ?thesis by blast
qed

theorem register_duplicate_witness:
  "''demo'' \<in> set (map u_username (users (a_db signed_out))) \<and>
   register ''demo'' ''new@example.com'' ''pw'' ''2024-02-01'' True signed_out =
     (False, signed_out\<lparr>a_calls := [Call_getUserByUsername ''demo'']\<rparr>) \<and>
   ''new'' \<notin> set (map u_username (users (a_db signed_out))) \<and>
   ''demo@andersenev.com'' \<in> set (map u_email (users (a_db signed_out))) \<and>
   register ''new'' ''demo@andersenev.com'' ''pw'' ''2024-02-01'' True signed_out =
     (False, signed_out\<lparr>a_calls := [Call_getUserByUsername ''new'',
                                     Call_createUser ''new'' ''demo@andersenev.com'' ''pw'']\<rparr>)"
  using register_duplicate [of "''demo''" signed_out "''new@example.com''" "''pw''" "''2024-02-01''" True]
        register_duplicate [of "''new''" signed_out "''demo@andersenev.com''" "''pw''" "''2024-02-01''" True]
  by (simp add: signed_out_def db_nine_def user_demo_def)


end
